theory Spec2Isabelle
  imports Complex_Main
begin

section \<open>Python values, attribute access and exceptions\<close>

text \<open>
  The pages of the application walk loosely typed response objects of the Mistral SDK with
  \<^verbatim>\<open>hasattr\<close>, \<^verbatim>\<open>isinstance\<close> and \<^verbatim>\<open>.get\<close>. The values they
  meet are modelled by one datatype. \<open>PDict\<close> is a Python dict with string keys, in insertion
  order; \<open>PObj\<close> is an attribute-bearing object, given by its attributes. An attribute
  whose value is \<open>PRaises e\<close> is a property whose getter raises \<open>e\<close>. Numbers are exact:
  Python's int and float are not told apart and no rounding error is modelled.
\<close>

datatype py_error =
    AttributeError
  | TypeError
  | ZeroDivisionError
  | KeyError
  | ServiceError string
  | RuntimeError string

datatype pyval =
    PNone
  | PBool bool
  | PNum real
  | PStr string
  | PBytes string
  | PList "pyval list"
  | PDict "(string \<times> pyval) list"
  | PObj "(string \<times> pyval) list"
  | PRaises py_error

datatype lookup = Missing | Found pyval | Raising py_error

definition rbind :: "py_error + 'a \<Rightarrow> ('a \<Rightarrow> py_error + 'b) \<Rightarrow> py_error + 'b" where
  "rbind r f = (case r of Inl e \<Rightarrow> Inl e | Inr v \<Rightarrow> f v)"

fun is_raises :: "pyval \<Rightarrow> bool" where
  "is_raises (PRaises e) = True"
| "is_raises _ = False"

text \<open>
  Attribute lookup on a value. Every object has an instance dictionary \<^verbatim>\<open>__dict__\<close>
  holding its plain attributes, unless a property of that name overrides it. Values of the
  built-in types have none of the attributes the pages ask for.
\<close>

definition attr_lookup :: "pyval \<Rightarrow> string \<Rightarrow> lookup" where
  "attr_lookup v n =
     (case v of
        PObj attrs \<Rightarrow>
          (case map_of attrs n of
             None \<Rightarrow>
               if n = ''__dict__''
               then Found (PDict (filter (\<lambda>kv. \<not> is_raises (snd kv)) attrs))
               else Missing
           | Some (PRaises e) \<Rightarrow> Raising e
           | Some x \<Rightarrow> Found x)
      | _ \<Rightarrow> Missing)"

text \<open>\<^verbatim>\<open>hasattr\<close> answers False on AttributeError only; any other exception of the getter propagates.\<close>

definition hasattr :: "pyval \<Rightarrow> string \<Rightarrow> py_error + bool" where
  "hasattr v n =
     (case attr_lookup v n of
        Missing \<Rightarrow> Inr False
      | Found x \<Rightarrow> Inr True
      | Raising e \<Rightarrow> if e = AttributeError then Inr False else Inl e)"

definition getattr :: "pyval \<Rightarrow> string \<Rightarrow> py_error + pyval" where
  "getattr v n =
     (case attr_lookup v n of
        Missing \<Rightarrow> Inl AttributeError
      | Found x \<Rightarrow> Inr x
      | Raising e \<Rightarrow> Inl e)"

text \<open>\<^verbatim>\<open>hasattr(v, 'get')\<close>: a dict has the method; an object has it when it has such an attribute.\<close>

definition has_get :: "pyval \<Rightarrow> py_error + bool" where
  "has_get v = (case v of PDict kv \<Rightarrow> Inr True | _ \<Rightarrow> hasattr v ''get'')"

text \<open>
  \<^verbatim>\<open>v.get(k, d)\<close>: the dict lookup with a default; on any other value the attribute
  \<^verbatim>\<open>get\<close> is looked up (AttributeError when absent) and, being data, cannot be called.
\<close>

definition call_get :: "pyval \<Rightarrow> string \<Rightarrow> pyval \<Rightarrow> py_error + pyval" where
  "call_get v k d =
     (case v of
        PDict kv \<Rightarrow> Inr (case map_of kv k of None \<Rightarrow> d | Some x \<Rightarrow> x)
      | _ \<Rightarrow> rbind (getattr v ''get'') (\<lambda>g. Inl TypeError))"

fun py_truthy :: "pyval \<Rightarrow> bool" where
  "py_truthy PNone = False"
| "py_truthy (PBool b) = b"
| "py_truthy (PNum x) = (x \<noteq> 0)"
| "py_truthy (PStr s) = (s \<noteq> [])"
| "py_truthy (PBytes s) = (s \<noteq> [])"
| "py_truthy (PList xs) = (xs \<noteq> [])"
| "py_truthy (PDict kv) = (kv \<noteq> [])"
| "py_truthy (PObj attrs) = True"
| "py_truthy (PRaises e) = True"

text \<open>\<^verbatim>\<open>s += v\<close> on a string \<open>s\<close>: only a string can be added.\<close>

definition str_add :: "string \<Rightarrow> pyval \<Rightarrow> py_error + string" where
  "str_add s v = (case v of PStr t \<Rightarrow> Inr (s @ t) | _ \<Rightarrow> Inl TypeError)"

text \<open>
  \<^verbatim>\<open>for x in v\<close>: a list gives its elements, a string its characters, bytes their
  numbers and a dict its keys.
\<close>

definition py_iter :: "pyval \<Rightarrow> py_error + pyval list" where
  "py_iter v =
     (case v of
        PList xs \<Rightarrow> Inr xs
      | PStr s \<Rightarrow> Inr (map (\<lambda>c. PStr [c]) s)
      | PBytes s \<Rightarrow> Inr (map (\<lambda>c. PNum (real (of_char c))) s)
      | PDict kv \<Rightarrow> Inr (map (\<lambda>kv. PStr (fst kv)) kv)
      | _ \<Rightarrow> Inl TypeError)"

text \<open>\<^verbatim>\<open>d[k]\<close> on a dict.\<close>

definition dict_item :: "pyval \<Rightarrow> string \<Rightarrow> py_error + pyval" where
  "dict_item v k =
     (case v of
        PDict kv \<Rightarrow> (case map_of kv k of None \<Rightarrow> Inl KeyError | Some x \<Rightarrow> Inr x)
      | _ \<Rightarrow> Inl TypeError)"

definition lower_char :: "char \<Rightarrow> char" where
  "lower_char c =
     (case map_of (zip ''ABCDEFGHIJKLMNOPQRSTUVWXYZ'' ''abcdefghijklmnopqrstuvwxyz'') c of
        Some d \<Rightarrow> d
      | None \<Rightarrow> c)"

definition lower :: "string \<Rightarrow> string" where
  "lower s = map lower_char s"

text \<open>\<^verbatim>\<open>v.lower()\<close>: the method of strings and of bytes; other values have no such method.\<close>

definition py_lower :: "pyval \<Rightarrow> py_error + pyval" where
  "py_lower v =
     (case v of
        PStr s \<Rightarrow> Inr (PStr (lower s))
      | PBytes s \<Rightarrow> Inr (PBytes (lower s))
      | _ \<Rightarrow> rbind (getattr v ''lower'') (\<lambda>g. Inl TypeError))"

fun py_number :: "pyval \<Rightarrow> real option" where
  "py_number (PNum x) = Some x"
| "py_number (PBool b) = Some (if b then 1 else 0)"
| "py_number _ = None"

section \<open>The remote service and the interpreter\<close>

text \<open>
  Each request to the hosted service is recorded in a trace. The service is a black box: the
  reply to a request is a function of the trace up to and including that request, so two
  equal requests may be answered differently. The library functions the pages call
  (\<^verbatim>\<open>json.loads\<close>, \<^verbatim>\<open>json.dumps\<close>, \<^verbatim>\<open>str\<close>, the clock) are parameters as well.
\<close>

datatype request =
    CreateAgent string "string list"
  | UpdateAgent string "string list"
  | StartConversation string string "string option"
  | ContinueConversation string pyval string
  | DownloadFile pyval

record response =
  outputs :: "pyval list"
  conversation_id :: string

record env =
  agents_create :: "request list \<Rightarrow> py_error + string"
  agents_update :: "request list \<Rightarrow> py_error + unit"
  conversations_start :: "request list \<Rightarrow> py_error + response"
  conversations_continued :: "request list \<Rightarrow> py_error + response"
  files_download :: "request list \<Rightarrow> py_error + string"
  json_loads :: "pyval \<Rightarrow> pyval option"
  json_dumps :: "pyval \<Rightarrow> string"
  py_str :: "pyval \<Rightarrow> string"
  exc_str :: "py_error \<Rightarrow> string"
  today :: string

text \<open>\<^verbatim>\<open>str(e)\<close>: an error of the service carries its message; the others print as the interpreter words them.\<close>

definition str_exc :: "env \<Rightarrow> py_error \<Rightarrow> string" where
  "str_exc ev e = (case e of ServiceError m \<Rightarrow> m | RuntimeError m \<Rightarrow> m | _ \<Rightarrow> exc_str ev e)"

text \<open>A value inside an f-string: a string prints as itself.\<close>

definition fmt :: "env \<Rightarrow> pyval \<Rightarrow> string" where
  "fmt ev v = (case v of PStr s \<Rightarrow> s | _ \<Rightarrow> py_str ev v)"

section \<open>Local tool executors (function\_calls.py)\<close>

record rate_entry =
  rate :: real
  name :: string
  last_updated :: string

definition rates :: "(string \<times> rate_entry) list" where
  "rates =
     [(''us'', \<lparr>rate = 5.5, name = ''Federal Reserve'', last_updated = ''2023-12-13''\<rparr>),
      (''ecb'', \<lparr>rate = 4.0, name = ''European Central Bank'', last_updated = ''2023-12-14''\<rparr>),
      (''uk'', \<lparr>rate = 5.25, name = ''Bank of England'', last_updated = ''2023-12-15''\<rparr>),
      (''japan'', \<lparr>rate = - 0.1, name = ''Bank of Japan'', last_updated = ''2023-12-10''\<rparr>),
      (''australia'', \<lparr>rate = 4.35, name = ''Reserve Bank of Australia'', last_updated = ''2023-12-05''\<rparr>),
      (''canada'', \<lparr>rate = 5.0, name = ''Bank of Canada'', last_updated = ''2023-12-06''\<rparr>)]"

text \<open>The entry of a key in the table; only a string can be a key of it.\<close>

definition rates_entry :: "pyval \<Rightarrow> rate_entry option" where
  "rates_entry k = (case k of PStr s \<Rightarrow> map_of rates s | _ \<Rightarrow> None)"

definition get_interest_rate :: "env \<Rightarrow> pyval \<Rightarrow> pyval \<Rightarrow> py_error + pyval" where
  "get_interest_rate ev region date =
     (let date' = (if \<not> py_truthy date then PStr (today ev) else date) in
      rbind (py_lower region) (\<lambda>region_lower.
        case rates_entry region_lower of
          Some r \<Rightarrow>
            Inr (PDict
              [(''region'', region),
               (''date'', date'),
               (''interest_rate'', PStr (fmt ev (PNum (rate r)) @ ''%'')),
               (''central_bank'', PStr (name r)),
               (''last_updated'', PStr (last_updated r))])
        | None \<Rightarrow>
            Inr (PDict
              [(''error'', PStr (''No interest rate data available for '' @ fmt ev region)),
               (''available_regions'', PList (map (\<lambda>kv. PStr (fst kv)) rates))])))"

text \<open>True division raises on a zero divisor.\<close>

definition py_div :: "real \<Rightarrow> real \<Rightarrow> py_error + real" where
  "py_div a b = (if b = 0 then Inl ZeroDivisionError else Inr (a / b))"

text \<open>
  \<^verbatim>\<open>x ** y\<close> on numbers: anything to the power zero is one; zero to a negative power
  raises; a negative base with a fractional exponent gives a complex number, which the
  later \<^verbatim>\<open>round\<close> rejects with TypeError.
\<close>

definition py_pow :: "real \<Rightarrow> real \<Rightarrow> py_error + real" where
  "py_pow x y =
     (if y = 0 then Inr 1
      else if x = 0 then (if y < 0 then Inl ZeroDivisionError else Inr 0)
      else if 0 < x then Inr (x powr y)
      else if frac y = 0 then Inr (x powi \<lfloor>y\<rfloor>)
      else Inl TypeError)"

text \<open>\<^verbatim>\<open>round(x, 2)\<close>: to the nearest hundredth, ties to the even one.\<close>

definition round_half_even :: "real \<Rightarrow> int" where
  "round_half_even y =
     (let f = \<lfloor>y\<rfloor>; d = y - of_int f in
      if d < 1 / 2 then f else if 1 / 2 < d then f + 1 else if even f then f else f + 1)"

definition round2 :: "real \<Rightarrow> real" where
  "round2 x = of_int (round_half_even (x * 100)) / 100"

text \<open>
  The calculator on numbers. A non-numeric argument ends in a TypeError of one of the
  arithmetic operations, whichever comes first.
\<close>

definition calculate_loan_payment :: "env \<Rightarrow> pyval \<Rightarrow> pyval \<Rightarrow> pyval \<Rightarrow> py_error + pyval" where
  "calculate_loan_payment ev principal' annual_interest_rate term_years =
     (case (py_number principal', py_number annual_interest_rate, py_number term_years) of
        (Some p, Some r, Some t) \<Rightarrow>
          (let monthly_rate = r / 100 / 12;
               payments = t * 12
           in rbind
                (if monthly_rate = 0 then py_div p payments
                 else rbind (py_pow (1 + monthly_rate) payments) (\<lambda>g.
                        py_div (p * (monthly_rate * g)) (g - 1)))
                (\<lambda>monthly_payment.
                   let total_payment = monthly_payment * payments;
                       total_interest = total_payment - p
                   in Inr (PDict
                        [(''principal'', principal'),
                         (''annual_interest_rate'', PStr (fmt ev annual_interest_rate @ ''%'')),
                         (''term_years'', term_years),
                         (''monthly_payment'', PNum (round2 monthly_payment)),
                         (''total_payment'', PNum (round2 total_payment)),
                         (''total_interest'', PNum (round2 total_interest)),
                         (''number_of_payments'', PNum payments)])))
      | _ \<Rightarrow> Inl TypeError)"

section \<open>The page state\<close>

text \<open>
  What a page leaves behind: the feature's conversation history (a list of dicts), the
  messages shown with \<^verbatim>\<open>st.error\<close> and \<^verbatim>\<open>st.warning\<close>, and the requests sent
  to the service.
\<close>

datatype alert = StError string | StWarning string

record page =
  history :: "pyval list"
  alerts :: "alert list"
  trace :: "request list"

definition user_message :: "string \<Rightarrow> pyval" where
  "user_message user_prompt = PDict [(''role'', PStr ''user''), (''content'', PStr user_prompt)]"

text \<open>\<^verbatim>\<open>hasattr(output, 'type') and output.type == t\<close>\<close>

definition has_type :: "pyval \<Rightarrow> string \<Rightarrow> py_error + bool" where
  "has_type v t =
     rbind (hasattr v ''type'') (\<lambda>h.
       if h then rbind (getattr v ''type'') (\<lambda>ty. Inr (ty = PStr t)) else Inr False)"

text \<open>\<^verbatim>\<open>x = v.a if hasattr(v, 'a')\<close>, with the value \<open>x\<close> had before.\<close>

definition attr_or :: "pyval \<Rightarrow> string \<Rightarrow> pyval \<Rightarrow> py_error + pyval" where
  "attr_or v n d = rbind (hasattr v n) (\<lambda>h. if h then getattr v n else Inr d)"

section \<open>The function-calls page (function\_calls.py)\<close>

definition create_function_call_agent :: "env \<Rightarrow> page \<Rightarrow> string option \<times> page" where
  "create_function_call_agent ev pg =
     (let tr = trace pg @ [CreateAgent ''Function Call Agent'' [''function'', ''function'']] in
      case agents_create ev tr of
        Inr agent_id \<Rightarrow> (Some agent_id, pg\<lparr>trace := tr\<rparr>)
      | Inl e \<Rightarrow>
          (None, pg\<lparr>trace := tr,
             alerts := alerts pg @
               [StError (''Failed to create function call agent: '' @ str_exc ev e)]\<rparr>))"

subsection \<open>The initial response: text and pending function calls\<close>

definition add_content_item :: "pyval \<Rightarrow> string \<Rightarrow> py_error + string" where
  "add_content_item content_item current_response =
     rbind (has_get content_item) (\<lambda>g.
       if g then
         rbind (call_get content_item ''type'' PNone) (\<lambda>ty.
           if ty = PStr ''text''
           then rbind (call_get content_item ''text'' (PStr [])) (str_add current_response)
           else Inr current_response)
       else
         rbind (hasattr content_item ''type'') (\<lambda>h.
           if h then
             rbind (getattr content_item ''type'') (\<lambda>ty.
               if ty = PStr ''text'' then
                 rbind (hasattr content_item ''text'') (\<lambda>ht.
                   if ht then rbind (getattr content_item ''text'') (str_add current_response)
                   else Inr current_response)
               else Inr current_response)
           else Inr current_response))"

fun add_content_items :: "pyval list \<Rightarrow> string \<Rightarrow> py_error + string" where
  "add_content_items [] current_response = Inr current_response"
| "add_content_items (content_item # rest) current_response =
     rbind (add_content_item content_item current_response) (add_content_items rest)"

definition add_message_output :: "pyval \<Rightarrow> string \<Rightarrow> py_error + string" where
  "add_message_output output current_response =
     rbind (getattr output ''content'') (\<lambda>content.
       case content of
         PStr s \<Rightarrow> Inr (current_response @ s)
       | PList items \<Rightarrow> add_content_items items current_response
       | _ \<Rightarrow> Inr current_response)"

text \<open>
  The arguments of a function call: \<^verbatim>\<open>json.loads\<close> inside a bare
  \<^verbatim>\<open>try/except\<close>; \<open>None\<close> from \<open>json_loads\<close> is any failure of the parser.
\<close>

definition parse_arguments :: "env \<Rightarrow> pyval \<Rightarrow> pyval" where
  "parse_arguments ev arguments =
     (case json_loads ev arguments of
        Some parsed \<Rightarrow> parsed
      | None \<Rightarrow> PDict [(''raw_args'', arguments)])"

definition add_tool_call :: "env \<Rightarrow> pyval \<Rightarrow> pyval list \<Rightarrow> py_error + pyval list" where
  "add_tool_call ev tool_call function_calls =
     rbind (hasattr tool_call ''function'') (\<lambda>h.
       if \<not> h then Inr function_calls
       else rbind (getattr tool_call ''function'') (\<lambda>func.
         if \<not> py_truthy func then Inr function_calls
         else
           rbind (attr_or tool_call ''id'' (PStr [])) (\<lambda>tool_call_id.
           rbind (attr_or func ''name'' (PStr [])) (\<lambda>function_name.
           rbind (hasattr func ''arguments'') (\<lambda>ha.
           rbind (if ha then rbind (getattr func ''arguments'') (\<lambda>a. Inr (parse_arguments ev a))
                  else Inr (PDict [])) (\<lambda>function_args.
             Inr (function_calls @
               [PDict [(''tool_call_id'', tool_call_id),
                       (''function_name'', function_name),
                       (''arguments'', function_args)]])))))))"

fun add_tool_calls :: "env \<Rightarrow> pyval list \<Rightarrow> pyval list \<Rightarrow> py_error + pyval list" where
  "add_tool_calls ev [] function_calls = Inr function_calls"
| "add_tool_calls ev (tool_call # rest) function_calls =
     rbind (add_tool_call ev tool_call function_calls) (add_tool_calls ev rest)"

definition process_output :: "env \<Rightarrow> pyval \<Rightarrow> string \<times> pyval list \<Rightarrow> py_error + string \<times> pyval list" where
  "process_output ev output acc =
     (case acc of (current_response, function_calls) \<Rightarrow>
        rbind (has_type output ''message.output'') (\<lambda>is_message.
          if is_message then
            rbind (add_message_output output current_response) (\<lambda>cur. Inr (cur, function_calls))
          else
            rbind (has_type output ''tool.calls'') (\<lambda>is_calls.
              if is_calls then
                rbind (hasattr output ''tool_calls'') (\<lambda>h.
                  if h then
                    rbind (getattr output ''tool_calls'') (\<lambda>tcs.
                    rbind (py_iter tcs) (\<lambda>tool_calls.
                    rbind (add_tool_calls ev tool_calls function_calls) (\<lambda>calls.
                      Inr (current_response, calls))))
                  else Inr acc)
              else Inr acc)))"

fun process_outputs :: "env \<Rightarrow> pyval list \<Rightarrow> string \<times> pyval list \<Rightarrow> py_error + string \<times> pyval list" where
  "process_outputs ev [] acc = Inr acc"
| "process_outputs ev (output # rest) acc =
     rbind (process_output ev output acc) (process_outputs ev rest)"

subsection \<open>Executing the function calls and continuing the conversation\<close>

definition execute_local :: "env \<Rightarrow> pyval \<Rightarrow> pyval \<Rightarrow> py_error + pyval" where
  "execute_local ev function_name args =
     (if function_name = PStr ''get_interest_rate'' then
        rbind (call_get args ''region'' (PStr [])) (\<lambda>region.
        rbind (call_get args ''date'' PNone) (\<lambda>date.
          get_interest_rate ev region date))
      else if function_name = PStr ''calculate_loan_payment'' then
        rbind (call_get args ''principal'' (PNum 0)) (\<lambda>p.
        rbind (call_get args ''annual_interest_rate'' (PNum 0)) (\<lambda>annual_interest_rate.
        rbind (call_get args ''term_years'' (PNum 0)) (\<lambda>term_years.
          calculate_loan_payment ev p annual_interest_rate term_years)))
      else Inr PNone)"

definition add_continued_item :: "pyval \<Rightarrow> string \<Rightarrow> py_error + string" where
  "add_continued_item content_item final_response =
     rbind (call_get content_item ''type'' PNone) (\<lambda>ty.
       if ty = PStr ''text''
       then rbind (call_get content_item ''text'' (PStr [])) (str_add final_response)
       else Inr final_response)"

fun add_continued_items :: "pyval list \<Rightarrow> string \<Rightarrow> py_error + string" where
  "add_continued_items [] final_response = Inr final_response"
| "add_continued_items (content_item # rest) final_response =
     rbind (add_continued_item content_item final_response) (add_continued_items rest)"

definition add_continued_output :: "pyval \<Rightarrow> string \<Rightarrow> py_error + string" where
  "add_continued_output output final_response =
     rbind (getattr output ''type'') (\<lambda>ty.
       if ty = PStr ''message.output'' then
         rbind (getattr output ''content'') (\<lambda>content.
           case content of
             PStr s \<Rightarrow> Inr (final_response @ s)
           | PList items \<Rightarrow> add_continued_items items final_response
           | _ \<Rightarrow> Inr final_response)
       else Inr final_response)"

fun add_continued_outputs :: "pyval list \<Rightarrow> string \<Rightarrow> py_error + string" where
  "add_continued_outputs [] final_response = Inr final_response"
| "add_continued_outputs (output # rest) final_response =
     rbind (add_continued_output output final_response) (add_continued_outputs rest)"

text \<open>
  One round of the loop over the pending function calls. The loop state is the final
  response so far, the function results so far and the trace of requests.
\<close>

definition execute_function_call ::
  "env \<Rightarrow> string \<Rightarrow> pyval \<Rightarrow> string \<times> pyval list \<Rightarrow> request list
     \<Rightarrow> (py_error + string \<times> pyval list) \<times> request list" where
  "execute_function_call ev conv_id function_call acc tr =
     (case acc of (final_response, function_results) \<Rightarrow>
      case rbind (dict_item function_call ''function_name'') (\<lambda>function_name.
           rbind (dict_item function_call ''arguments'') (\<lambda>args.
           rbind (execute_local ev function_name args) (\<lambda>result.
             if \<not> py_truthy result then Inr None
             else rbind (dict_item function_call ''tool_call_id'') (\<lambda>tool_call_id.
                    Inr (Some (function_name, result, tool_call_id)))))) of
        Inl e \<Rightarrow> (Inl e, tr)
      | Inr None \<Rightarrow> (Inr acc, tr)
      | Inr (Some (function_name, result, tool_call_id)) \<Rightarrow>
            (let results = function_results @
                   [PDict [(''tool_call_id'', tool_call_id),
                           (''function_name'', function_name),
                           (''result'', result)]];
                 tr' = tr @ [ContinueConversation conv_id tool_call_id (json_dumps ev result)]
             in case conversations_continued ev tr' of
                  Inl e \<Rightarrow> (Inl e, tr')
                | Inr continue_response \<Rightarrow>
                    (rbind (add_continued_outputs (outputs continue_response) final_response)
                       (\<lambda>final. Inr (final, results)), tr')))"

fun execute_function_calls ::
  "env \<Rightarrow> string \<Rightarrow> pyval list \<Rightarrow> string \<times> pyval list \<Rightarrow> request list
     \<Rightarrow> (py_error + string \<times> pyval list) \<times> request list" where
  "execute_function_calls ev conv_id [] acc tr = (Inr acc, tr)"
| "execute_function_calls ev conv_id (function_call # rest) acc tr =
     (case execute_function_call ev conv_id function_call acc tr of
        (Inl e, tr') \<Rightarrow> (Inl e, tr')
      | (Inr acc', tr') \<Rightarrow> execute_function_calls ev conv_id rest acc' tr')"

text \<open>The body of the \<^verbatim>\<open>try\<close> block: the assistant turn it appends, or the exception.\<close>

definition function_call_turn ::
  "env \<Rightarrow> string \<Rightarrow> string \<Rightarrow> request list \<Rightarrow> (py_error + pyval) \<times> request list" where
  "function_call_turn ev agent_id user_prompt tr =
     (let tr1 = tr @ [StartConversation agent_id user_prompt None] in
      case conversations_start ev tr1 of
        Inl e \<Rightarrow> (Inl e, tr1)
      | Inr response \<Rightarrow>
          (case process_outputs ev (outputs response) ([], []) of
             Inl e \<Rightarrow> (Inl e, tr1)
           | Inr (current_response, function_calls) \<Rightarrow>
               (case execute_function_calls ev (conversation_id response) function_calls
                       ([], []) tr1 of
                  (Inl e, tr2) \<Rightarrow> (Inl e, tr2)
                | (Inr (final_response, function_results), tr2) \<Rightarrow>
                    (Inr (PDict
                       [(''role'', PStr ''assistant''),
                        (''content'',
                           PStr (if function_calls = [] then current_response else final_response)),
                        (''function_calls'', PList function_calls),
                        (''function_results'', PList function_results)]), tr2))))"

definition function_calls_error_message :: "env \<Rightarrow> py_error \<Rightarrow> pyval" where
  "function_calls_error_message ev e =
     PDict [(''role'', PStr ''assistant''),
            (''content'', PStr (''Error: '' @ str_exc ev e)),
            (''function_calls'', PList []),
            (''function_results'', PList [])]"

text \<open>
  A press of the submit button on the page, with the API key of the session and the prompt
  chosen. The page returns early without a key, without a prompt and without an agent.
\<close>

definition submit_function_calls :: "env \<Rightarrow> string \<Rightarrow> string \<Rightarrow> page \<Rightarrow> page" where
  "submit_function_calls ev api_key user_prompt pg =
     (if api_key = [] then
        pg\<lparr>alerts := alerts pg @
          [StWarning ''Please enter your Mistral API Key in the sidebar to use this feature.'']\<rparr>
      else if user_prompt = [] then
        pg\<lparr>alerts := alerts pg @ [StWarning ''Please enter a prompt.'']\<rparr>
      else
        (case create_function_call_agent ev pg of
           (None, pg1) \<Rightarrow> pg1
         | (Some agent_id, pg1) \<Rightarrow>
             (let pg2 = pg1\<lparr>history := history pg1 @ [user_message user_prompt]\<rparr> in
              case function_call_turn ev agent_id user_prompt (trace pg2) of
                (Inr message, tr) \<Rightarrow>
                  pg2\<lparr>history := history pg2 @ [message], trace := tr\<rparr>
              | (Inl e, tr) \<Rightarrow>
                  pg2\<lparr>history := history pg2 @ [function_calls_error_message ev e],
                      alerts := alerts pg2 @ [StError (''Error: '' @ str_exc ev e)],
                      trace := tr\<rparr>)))"

section \<open>The web-search page (web\_search.py)\<close>

definition create_web_search_agent :: "env \<Rightarrow> bool \<Rightarrow> page \<Rightarrow> string option \<times> page" where
  "create_web_search_agent ev premium pg =
     (let tool_type = (if premium then ''web_search_premium'' else ''web_search'');
          tr = trace pg @ [CreateAgent ''Web Search Agent'' [tool_type]]
      in case agents_create ev tr of
           Inr agent_id \<Rightarrow> (Some agent_id, pg\<lparr>trace := tr\<rparr>)
         | Inl e \<Rightarrow>
             (None, pg\<lparr>trace := tr,
                alerts := alerts pg @
                  [StError (''Failed to create web search agent: '' @ str_exc ev e)]\<rparr>))"

definition is_web_search_tool :: "pyval \<Rightarrow> bool" where
  "is_web_search_tool tool = (tool = PStr ''web_search'' \<or> tool = PStr ''web_search_premium'')"

definition search_content_item :: "pyval \<Rightarrow> string \<times> pyval list \<Rightarrow> py_error + string \<times> pyval list" where
  "search_content_item content_item acc =
     (case acc of (response_text, sources) \<Rightarrow>
        rbind (has_get content_item) (\<lambda>g.
          if g then
            rbind (call_get content_item ''type'' PNone) (\<lambda>ty.
              if ty = PStr ''text'' then
                rbind (call_get content_item ''text'' (PStr [])) (\<lambda>t.
                rbind (str_add response_text t) (\<lambda>txt. Inr (txt, sources)))
              else if ty = PStr ''tool_reference'' then
                rbind (call_get content_item ''tool'' PNone) (\<lambda>tool.
                  if is_web_search_tool tool then
                    rbind (call_get content_item ''title'' (PStr [])) (\<lambda>title.
                    rbind (call_get content_item ''url'' (PStr [])) (\<lambda>url.
                    rbind (call_get content_item ''source'' (PStr [])) (\<lambda>source.
                      Inr (response_text, sources @
                        [PDict [(''title'', title), (''url'', url), (''source'', source)]]))))
                  else Inr acc)
              else Inr acc)
          else
            rbind (hasattr content_item ''type'') (\<lambda>h.
              if h then
                rbind (getattr content_item ''type'') (\<lambda>ty.
                rbind (if ty = PStr ''text'' then hasattr content_item ''text'' else Inr False) (\<lambda>is_text.
                  if is_text then
                    rbind (getattr content_item ''text'') (\<lambda>t.
                    rbind (str_add response_text t) (\<lambda>txt. Inr (txt, sources)))
                  else
                    rbind (if ty = PStr ''tool_reference'' then hasattr content_item ''tool''
                           else Inr False) (\<lambda>is_ref.
                      if is_ref then
                        rbind (getattr content_item ''tool'') (\<lambda>tool.
                          if is_web_search_tool tool then
                            rbind (attr_or content_item ''title'' (PStr [])) (\<lambda>title.
                            rbind (attr_or content_item ''url'' (PStr [])) (\<lambda>url.
                            rbind (attr_or content_item ''source'' (PStr [])) (\<lambda>source.
                              Inr (response_text, sources @
                                [PDict [(''title'', title), (''url'', url), (''source'', source)]]))))
                          else Inr acc)
                      else Inr acc)))
              else Inr acc)))"

fun search_content_items :: "pyval list \<Rightarrow> string \<times> pyval list \<Rightarrow> py_error + string \<times> pyval list" where
  "search_content_items [] acc = Inr acc"
| "search_content_items (content_item # rest) acc =
     rbind (search_content_item content_item acc) (search_content_items rest)"

definition search_output :: "pyval \<Rightarrow> string \<times> pyval list \<Rightarrow> py_error + string \<times> pyval list" where
  "search_output output acc =
     (case acc of (response_text, sources) \<Rightarrow>
        rbind (has_type output ''message.output'') (\<lambda>is_message.
          if is_message then
            rbind (getattr output ''content'') (\<lambda>content.
              case content of
                PStr s \<Rightarrow> Inr (response_text @ s, sources)
              | PList items \<Rightarrow> search_content_items items acc
              | _ \<Rightarrow> Inr acc)
          else Inr acc))"

fun search_outputs :: "pyval list \<Rightarrow> string \<times> pyval list \<Rightarrow> py_error + string \<times> pyval list" where
  "search_outputs [] acc = Inr acc"
| "search_outputs (output # rest) acc = rbind (search_output output acc) (search_outputs rest)"

definition web_search_turn ::
  "env \<Rightarrow> string \<Rightarrow> string \<Rightarrow> request list \<Rightarrow> (py_error + pyval) \<times> request list" where
  "web_search_turn ev agent_id user_prompt tr =
     (let tr1 = tr @ [StartConversation agent_id user_prompt None] in
      case conversations_start ev tr1 of
        Inl e \<Rightarrow> (Inl e, tr1)
      | Inr response \<Rightarrow>
          (rbind (search_outputs (outputs response) ([], [])) (\<lambda>(response_text, sources).
             Inr (PDict
               [(''role'', PStr ''assistant''),
                (''content'', PStr response_text),
                (''sources'', PList sources)])), tr1))"

definition web_search_error_message :: "env \<Rightarrow> py_error \<Rightarrow> pyval" where
  "web_search_error_message ev e =
     PDict [(''role'', PStr ''assistant''),
            (''content'', PStr (''Error: '' @ str_exc ev e)),
            (''sources'', PList [])]"

definition submit_web_search :: "env \<Rightarrow> string \<Rightarrow> bool \<Rightarrow> string \<Rightarrow> page \<Rightarrow> page" where
  "submit_web_search ev api_key premium user_prompt pg =
     (if api_key = [] then
        pg\<lparr>alerts := alerts pg @
          [StWarning ''Please enter your Mistral API Key in the sidebar to use this feature.'']\<rparr>
      else if user_prompt = [] then
        pg\<lparr>alerts := alerts pg @ [StWarning ''Please enter a prompt.'']\<rparr>
      else
        (case create_web_search_agent ev premium pg of
           (None, pg1) \<Rightarrow> pg1
         | (Some agent_id, pg1) \<Rightarrow>
             (let pg2 = pg1\<lparr>history := history pg1 @ [user_message user_prompt]\<rparr> in
              case web_search_turn ev agent_id user_prompt (trace pg2) of
                (Inr message, tr) \<Rightarrow>
                  pg2\<lparr>history := history pg2 @ [message], trace := tr\<rparr>
              | (Inl e, tr) \<Rightarrow>
                  pg2\<lparr>history := history pg2 @ [web_search_error_message ev e],
                      alerts := alerts pg2 @ [StError (''Error: '' @ str_exc ev e)],
                      trace := tr\<rparr>)))"

section \<open>The agent-orchestration page (agent\_orchestration.py)\<close>

text \<open>
  The reverse lookup of a handoff target in the registry of agent ids:
  \<^verbatim>\<open>next((name for name, id in agent_ids.items() if id == handoff_agent_id), "Unknown Agent")\<close>.
\<close>

definition handoff_agent_name :: "(string \<times> string) list \<Rightarrow> pyval \<Rightarrow> string" where
  "handoff_agent_name agent_ids handoff_agent_id =
     (case find (\<lambda>entry. PStr (snd entry) = handoff_agent_id) agent_ids of
        Some entry \<Rightarrow> fst entry
      | None \<Rightarrow> ''Unknown Agent'')"

definition handoff_record :: "(string \<times> string) list \<Rightarrow> pyval \<Rightarrow> py_error + pyval" where
  "handoff_record agent_ids output =
     rbind (attr_or output ''agent_id'' (PStr [])) (\<lambda>handoff_agent_id.
     rbind (attr_or output ''inputs'' (PStr [])) (\<lambda>handoff_inputs.
       Inr (PDict
         [(''agent_name'', PStr (handoff_agent_name agent_ids handoff_agent_id)),
          (''agent_id'', handoff_agent_id),
          (''inputs'', handoff_inputs)])))"

text \<open>
  The info of a tool execution. Only the second read of \<^verbatim>\<open>__dict__\<close> stands inside the
  \<^verbatim>\<open>try\<close>; the \<^verbatim>\<open>hasattr\<close> tests before it stand outside.
\<close>

definition tool_info_of :: "pyval \<Rightarrow> py_error + pyval" where
  "tool_info_of output =
     rbind (hasattr output ''info'') (\<lambda>has_info.
       if has_info then
         rbind (getattr output ''info'') (\<lambda>info.
         rbind (hasattr info ''__dict__'') (\<lambda>has_dict.
           if has_dict then
             Inr (case getattr info ''__dict__'' of Inl e \<Rightarrow> PDict [] | Inr d \<Rightarrow> d)
           else Inr info))
       else Inr (PDict []))"

definition tool_execution_record :: "pyval \<Rightarrow> py_error + pyval" where
  "tool_execution_record output =
     rbind (attr_or output ''name'' (PStr [])) (\<lambda>tool_name.
     rbind (tool_info_of output) (\<lambda>tool_info.
       Inr (PDict [(''tool_name'', tool_name), (''info'', tool_info)])))"

definition orchestration_output ::
  "(string \<times> string) list \<Rightarrow> pyval \<Rightarrow> string \<times> pyval list \<times> pyval list
     \<Rightarrow> py_error + string \<times> pyval list \<times> pyval list" where
  "orchestration_output agent_ids output acc =
     (case acc of (primary_response, handoffs, tool_executions) \<Rightarrow>
        rbind (has_type output ''message.output'') (\<lambda>is_message.
          if is_message then
            rbind (add_message_output output primary_response) (\<lambda>txt.
              Inr (txt, handoffs, tool_executions))
          else
            rbind (has_type output ''handoff.execution'') (\<lambda>is_handoff.
              if is_handoff then
                rbind (handoff_record agent_ids output) (\<lambda>h.
                  Inr (primary_response, handoffs @ [h], tool_executions))
              else
                rbind (has_type output ''tool.execution'') (\<lambda>is_tool.
                  if is_tool then
                    rbind (tool_execution_record output) (\<lambda>t.
                      Inr (primary_response, handoffs, tool_executions @ [t]))
                  else Inr acc))))"

fun orchestration_outputs ::
  "(string \<times> string) list \<Rightarrow> pyval list \<Rightarrow> string \<times> pyval list \<times> pyval list
     \<Rightarrow> py_error + string \<times> pyval list \<times> pyval list" where
  "orchestration_outputs agent_ids [] acc = Inr acc"
| "orchestration_outputs agent_ids (output # rest) acc =
     rbind (orchestration_output agent_ids output acc) (orchestration_outputs agent_ids rest)"

definition orchestration_turn ::
  "env \<Rightarrow> (string \<times> string) list \<Rightarrow> string \<Rightarrow> string \<Rightarrow> string \<Rightarrow> request list
     \<Rightarrow> (py_error + pyval) \<times> request list" where
  "orchestration_turn ev agent_ids agent_id user_prompt handoff_mode tr =
     (let tr1 = tr @ [StartConversation agent_id user_prompt (Some handoff_mode)] in
      case conversations_start ev tr1 of
        Inl e \<Rightarrow> (Inl e, tr1)
      | Inr response \<Rightarrow>
          (rbind (orchestration_outputs agent_ids (outputs response) ([], [], []))
             (\<lambda>(primary_response, handoffs, tool_executions).
                Inr (PDict
                  [(''role'', PStr ''assistant''),
                   (''content'', PStr primary_response),
                   (''handoffs'', PList handoffs),
                   (''tool_executions'', PList tool_executions)])), tr1))"

definition orchestration_error_message :: "env \<Rightarrow> py_error \<Rightarrow> pyval" where
  "orchestration_error_message ev e =
     PDict [(''role'', PStr ''assistant''),
            (''content'', PStr (''Error: '' @ str_exc ev e)),
            (''handoffs'', PList []),
            (''tool_executions'', PList [])]"

text \<open>
  The part of the submit handler after the agents exist: the user turn, the conversation
  and the assistant turn or the error turn.
\<close>

definition orchestration_exchange ::
  "env \<Rightarrow> (string \<times> string) list \<Rightarrow> string \<Rightarrow> string \<Rightarrow> string \<Rightarrow> page \<Rightarrow> page" where
  "orchestration_exchange ev agent_ids agent_id user_prompt handoff_mode pg =
     (let pg2 = pg\<lparr>history := history pg @ [user_message user_prompt]\<rparr> in
      case orchestration_turn ev agent_ids agent_id user_prompt handoff_mode (trace pg2) of
        (Inr message, tr) \<Rightarrow> pg2\<lparr>history := history pg2 @ [message], trace := tr\<rparr>
      | (Inl e, tr) \<Rightarrow>
          pg2\<lparr>history := history pg2 @ [orchestration_error_message ev e],
              alerts := alerts pg2 @ [StError (''Error: '' @ str_exc ev e)],
              trace := tr\<rparr>)"

text \<open>
  Creating the four agents and wiring their handoffs, all inside one \<^verbatim>\<open>try\<close>: the
  first failing request ends it. The result is the id of the finance agent and the registry
  of agent ids by name.
\<close>

fun create_agents ::
  "env \<Rightarrow> (string \<times> string list) list \<Rightarrow> request list \<Rightarrow> (py_error + string list) \<times> request list" where
  "create_agents ev [] tr = (Inr [], tr)"
| "create_agents ev ((agent_name, tools) # rest) tr =
     (let tr1 = tr @ [CreateAgent agent_name tools] in
      case agents_create ev tr1 of
        Inl e \<Rightarrow> (Inl e, tr1)
      | Inr agent_id \<Rightarrow>
          (case create_agents ev rest tr1 of
             (Inl e, tr2) \<Rightarrow> (Inl e, tr2)
           | (Inr ids, tr2) \<Rightarrow> (Inr (agent_id # ids), tr2)))"

fun update_agents ::
  "env \<Rightarrow> (string \<times> string list) list \<Rightarrow> request list \<Rightarrow> (py_error + unit) \<times> request list" where
  "update_agents ev [] tr = (Inr (), tr)"
| "update_agents ev ((agent_id, handoffs) # rest) tr =
     (let tr1 = tr @ [UpdateAgent agent_id handoffs] in
      case agents_update ev tr1 of
        Inl e \<Rightarrow> (Inl e, tr1)
      | Inr u \<Rightarrow> update_agents ev rest tr1)"

definition create_orchestration_agents ::
  "env \<Rightarrow> page \<Rightarrow> (string \<times> (string \<times> string) list) option \<times> page" where
  "create_orchestration_agents ev pg =
     (let failed = (\<lambda>e tr.
            (None, pg\<lparr>trace := tr,
               alerts := alerts pg @
                 [StError (''Failed to create orchestration agents: '' @ str_exc ev e)]\<rparr>))
      in case create_agents ev
                [(''Finance Agent'', []),
                 (''Web Search Agent'', [''web_search'']),
                 (''Calculator Agent'', [''code_interpreter'']),
                 (''Graph Agent'', [''code_interpreter''])] (trace pg) of
           (Inl e, tr) \<Rightarrow> failed e tr
         | (Inr [finance, web_search, calculator, graph], tr) \<Rightarrow>
             (case update_agents ev
                     [(finance, [web_search, calculator, graph]),
                      (web_search, [calculator, graph]),
                      (calculator, [graph])] tr of
                (Inl e, tr') \<Rightarrow> failed e tr'
              | (Inr u, tr') \<Rightarrow>
                  (Some (finance,
                     [(''finance'', finance), (''web_search'', web_search),
                      (''calculator'', calculator), (''graph'', graph)]),
                   pg\<lparr>trace := tr'\<rparr>))
         | (Inr ids, tr) \<Rightarrow> (None, pg\<lparr>trace := tr\<rparr>))"

definition submit_orchestration :: "env \<Rightarrow> string \<Rightarrow> string \<Rightarrow> string \<Rightarrow> page \<Rightarrow> page" where
  "submit_orchestration ev api_key user_prompt handoff_mode pg =
     (if api_key = [] then
        pg\<lparr>alerts := alerts pg @
          [StWarning ''Please enter your Mistral API Key in the sidebar to use this feature.'']\<rparr>
      else if user_prompt = [] then
        pg\<lparr>alerts := alerts pg @ [StWarning ''Please enter a prompt.'']\<rparr>
      else
        (case create_orchestration_agents ev pg of
           (None, pg1) \<Rightarrow> pg1
         | (Some (finance, agent_ids), pg1) \<Rightarrow>
             orchestration_exchange ev agent_ids finance user_prompt handoff_mode pg1))"

section \<open>The image-generation page (image\_generation.py)\<close>


text \<open>What the walk over one response collects: the text and the last image file seen.\<close>

record image_acc =
  response_text :: string
  image_file_id :: pyval
  image_file_name :: pyval
  image_file_type :: pyval











section \<open>The text of a turn, as the specification words it\<close>

text \<open>
  The text of a content sub-item: the text field of a sub-item whose type is "text", read by
  key from a mapping and by attribute from an object; nothing for any other sub-item.
\<close>

definition spec_item_text :: "pyval \<Rightarrow> string" where
  "spec_item_text item =
     (let flds = (case item of PDict kv \<Rightarrow> kv | PObj attrs \<Rightarrow> attrs | _ \<Rightarrow> []) in
      if map_of flds ''type'' = Some (PStr ''text'')
      then (case map_of flds ''text'' of Some (PStr s) \<Rightarrow> s | _ \<Rightarrow> [])
      else [])"

text \<open>
  The text of an output item: a message output whose content is a string gives that string,
  one whose content is a list gives the texts of its sub-items in order.
\<close>

definition spec_output_text :: "pyval \<Rightarrow> string" where
  "spec_output_text output =
     (case output of
        PObj attrs \<Rightarrow>
          if map_of attrs ''type'' = Some (PStr ''message.output'')
          then (case map_of attrs ''content'' of
                  Some (PStr s) \<Rightarrow> s
                | Some (PList items) \<Rightarrow> concat (map spec_item_text items)
                | _ \<Rightarrow> [])
          else []
      | _ \<Rightarrow> [])"

definition spec_text :: "pyval list \<Rightarrow> string" where
  "spec_text outs = concat (map spec_output_text outs)"






section \<open>The text of the continuation responses\<close>

text \<open>
  The texts of the continuation responses received between two states of the trace, in the
  order of the requests: each request sent after \<open>tr\<close> up to \<open>tr'\<close> is looked up with the
  trace it was sent on.
\<close>

definition continued_texts :: "env \<Rightarrow> request list \<Rightarrow> request list \<Rightarrow> string list" where
  "continued_texts ev tr tr' =
     concat (map (\<lambda>n.
        case conversations_continued ev (take n tr') of
          Inr r \<Rightarrow> (case add_continued_outputs (outputs r) [] of Inr t \<Rightarrow> [t] | Inl e \<Rightarrow> [])
        | Inl e \<Rightarrow> [])
       [Suc (length tr) ..< Suc (length tr')])"


section \<open>Concrete services and payloads\<close>

text \<open>
  A service that creates agents and refuses every conversation, a \<^verbatim>\<open>json.loads\<close> that
  knows two argument strings, and an empty page. The examples below vary this service.
\<close>

definition demo_json_loads :: "pyval \<Rightarrow> pyval option" where
  \<open>demo_json_loads v =
     (if v = PStr ''{"region": "US"}'' then Some (PDict [(''region'', PStr ''US'')])
      else if v = PStr ''{"principal": 300000, "annual_interest_rate": 5.2}''
      then Some (PDict [(''principal'', PNum 300000), (''annual_interest_rate'', PNum 5.2)])
      else None)\<close>

definition base_env :: env where
  "base_env =
     \<lparr>agents_create = (\<lambda>tr. Inr ''agent-1''),
      agents_update = (\<lambda>tr. Inr ()),
      conversations_start = (\<lambda>tr. Inl (ServiceError ''401 Unauthorized'')),
      conversations_continued = (\<lambda>tr. Inl (ServiceError ''503 Service Unavailable'')),
      files_download = (\<lambda>tr. Inl (ServiceError ''404 Not Found'')),
      json_loads = demo_json_loads,
      json_dumps = (\<lambda>v. ''{}''),
      py_str = (\<lambda>v. if v = PNum 5.5 then ''5.5'' else if v = PNum 1 then ''1''
                     else if v = PNum 2 then ''2'' else ''<value>''),
      exc_str = (\<lambda>e. ''<exception>''),
      today = ''2024-01-01''\<rparr>"

definition empty_page :: page where
  "empty_page = \<lparr>history = [], alerts = [], trace = []\<rparr>"

text \<open>A payload with a string content, a list content of mixed sub-items and a tool call.\<close>

definition demo_tool_call :: pyval where
  \<open>demo_tool_call =
     PObj [(''id'', PStr ''call-1''),
           (''function'', PObj [(''name'', PStr ''get_interest_rate''),
                                (''arguments'', PStr ''{"region": "US"}'')])]\<close>

definition demo_payload :: "pyval list" where
  "demo_payload =
     [PObj [(''type'', PStr ''message.output''), (''content'', PStr ''Hello. '')],
      PObj [(''type'', PStr ''message.output''),
            (''content'', PList
               [PDict [(''type'', PStr ''text''), (''text'', PStr ''The rate '')],
                PObj [(''type'', PStr ''tool_file''), (''file_id'', PStr ''file-1'')],
                PObj [(''type'', PStr ''text''), (''text'', PStr ''is 5.5%.'')]])],
      PObj [(''type'', PStr ''tool.calls''), (''tool_calls'', PList [demo_tool_call])]]"




text \<open>
  A service that answers the first request with the demo payload, which asks for the rate of
  the US, and the continuation with a text.
\<close>

definition rate_env :: env where
  "rate_env = base_env
     \<lparr>conversations_start := (\<lambda>tr. Inr \<lparr>outputs = demo_payload, conversation_id = ''conv-1''\<rparr>),
      conversations_continued := (\<lambda>tr. Inr
        \<lparr>outputs =
           [PObj [(''type'', PStr ''message.output''),
                  (''content'', PList
                     [PDict [(''type'', PStr ''text''),
                             (''text'', PStr ''The Federal Reserve rate is 5.5%.'')]])]],
         conversation_id = ''conv-1''\<rparr>)\<rparr>"

text \<open>A service that refuses to create agents.\<close>

definition locked_env :: env where
  "locked_env = base_env\<lparr>agents_create := (\<lambda>tr. Inl (ServiceError ''401 Unauthorized''))\<rparr>"

text \<open>
  Tool executions: one with a mapping as info, one whose info object raises when its
  \<^verbatim>\<open>__dict__\<close> is read; and a service that answers with both.
\<close>

definition good_tool_execution :: pyval where
  "good_tool_execution =
     PObj [(''type'', PStr ''tool.execution''), (''name'', PStr ''code_interpreter''),
           (''info'', PDict [(''code'', PStr ''print(1)''), (''code_output'', PStr ''1'')])]"

definition bad_tool_execution :: pyval where
  "bad_tool_execution =
     PObj [(''type'', PStr ''tool.execution''), (''name'', PStr ''web_search''),
           (''info'', PObj [(''__dict__'', PRaises (RuntimeError ''info unavailable''))])]"

definition tool_env :: env where
  "tool_env = base_env\<lparr>conversations_start := (\<lambda>tr. Inr
     \<lparr>outputs = [good_tool_execution, bad_tool_execution], conversation_id = ''conv-1''\<rparr>)\<rparr>"

text \<open>A registry of agent ids and a payload with two handoffs around a message.\<close>

definition demo_agent_ids :: "(string \<times> string) list" where
  "demo_agent_ids =
     [(''finance'', ''id-1''), (''web_search'', ''id-2''),
      (''calculator'', ''id-123''), (''graph'', ''id-4'')]"

definition handoff_payload :: "pyval list" where
  "handoff_payload =
     [PObj [(''type'', PStr ''handoff.execution''), (''agent_id'', PStr ''id-123''),
            (''inputs'', PStr ''compute'')],
      PObj [(''type'', PStr ''message.output''), (''content'', PStr ''Done.'')],
      PObj [(''type'', PStr ''handoff.execution''), (''agent_id'', PStr ''id-999''),
            (''inputs'', PStr ''plot'')]]"



section \<open>Properties\<close>

subsection \<open>Attribute access on plain objects\<close>








lemma has_type_obj:
  "has_type (PObj attrs) t = Inr True \<Longrightarrow> map_of attrs ''type'' = Some (PStr t)"
  by (auto simp: has_type_def hasattr_def getattr_def attr_lookup_def rbind_def
      split: option.splits pyval.splits if_splits lookup.splits)

lemma has_type_nonobj: "(\<And>attrs. v \<noteq> PObj attrs) \<Longrightarrow> has_type v t = Inr False"
  by (cases v) (auto simp: has_type_def hasattr_def attr_lookup_def rbind_def)

lemma has_type_False:
  "has_type (PObj attrs) t = Inr False \<Longrightarrow> map_of attrs ''type'' \<noteq> Some (PStr t)"
  by (auto simp: has_type_def hasattr_def getattr_def attr_lookup_def rbind_def
      split: option.splits pyval.splits if_splits lookup.splits)

lemma has_type_True:
  "has_type out t = Inr True \<Longrightarrow>
     \<exists>attrs. out = PObj attrs \<and> map_of attrs ''type'' = Some (PStr t)"
  by (cases out) (auto simp: has_type_nonobj dest: has_type_obj)



subsection \<open>The text of the initial response\<close>

lemma add_content_item_sound:
  "add_content_item item cur = Inr r \<Longrightarrow> r = cur @ spec_item_text item"
  by (cases item)
    (auto simp: add_content_item_def has_get_def hasattr_def getattr_def attr_lookup_def
      call_get_def rbind_def str_add_def spec_item_text_def
      split: if_splits option.splits pyval.splits sum.splits lookup.splits)

lemma add_content_items_sound:
  "add_content_items items cur = Inr r \<Longrightarrow> r = cur @ concat (map spec_item_text items)"
proof (induction items arbitrary: cur)
  case Nil
  then show ?case by simp
next
  case (Cons item items)
  from Cons.prems obtain c1 where 1: "add_content_item item cur = Inr c1"
    and 2: "add_content_items items c1 = Inr r"
    by (auto simp: rbind_def split: sum.splits)
  from add_content_item_sound[OF 1] Cons.IH[OF 2] show ?case by simp
qed

lemma add_message_output_sound:
  assumes "has_type out ''message.output'' = Inr True" and "add_message_output out cur = Inr r"
  shows "r = cur @ spec_output_text out"
proof -
  from has_type_True[OF assms(1)] obtain attrs where out: "out = PObj attrs"
    and ty: "map_of attrs ''type'' = Some (PStr ''message.output'')" by blast
  from assms(2) obtain c where c: "getattr out ''content'' = Inr c"
    by (auto simp: add_message_output_def rbind_def split: sum.splits)
  then have m: "map_of attrs ''content'' = Some c"
    by (auto simp: out getattr_def attr_lookup_def split: option.splits pyval.splits lookup.splits)
  from assms(2) c show ?thesis
    by (cases c) (auto simp: add_message_output_def rbind_def spec_output_text_def out ty m
        dest: add_content_items_sound)
qed

lemma not_message_text:
  "has_type out ''message.output'' = Inr False \<Longrightarrow> spec_output_text out = []"
  by (cases out) (auto simp: spec_output_text_def dest: has_type_False)

lemma process_output_sound:
  "process_output ev out (cur, calls) = Inr (r, calls') \<Longrightarrow> r = cur @ spec_output_text out"
  by (auto simp: process_output_def rbind_def not_message_text split: sum.splits if_splits
      dest: add_message_output_sound)

lemma process_outputs_sound:
  "process_outputs ev outs (cur, calls) = Inr (r, calls') \<Longrightarrow> r = cur @ spec_text outs"
proof (induction outs arbitrary: cur calls)
  case Nil
  then show ?case by (simp add: spec_text_def)
next
  case (Cons out outs)
  from Cons.prems obtain c1 k1 where 1: "process_output ev out (cur, calls) = Inr (c1, k1)"
    and 2: "process_outputs ev outs (c1, k1) = Inr (r, calls')"
    by (auto simp: rbind_def split: sum.splits)
  from process_output_sound[OF 1] Cons.IH[OF 2] show ?case by (simp add: spec_text_def)
qed











subsection \<open>The rate lookup\<close>

lemma lower_examples:
  "lower ''us'' = ''us''" "lower ''US'' = ''us''" "lower ''Mars'' = ''mars''"
  "lower ''Uk'' = ''uk''" "lower ''uK'' = ''uk''"
  by (simp_all add: lower_def lower_char_def)

lemma get_interest_rate_str:
  "get_interest_rate ev (PStr s) d =
     (case map_of rates (lower s) of
        Some r \<Rightarrow>
          Inr (PDict
            [(''region'', PStr s),
             (''date'', if py_truthy d then d else PStr (today ev)),
             (''interest_rate'', PStr (py_str ev (PNum (rate r)) @ ''%'')),
             (''central_bank'', PStr (name r)),
             (''last_updated'', PStr (last_updated r))])
      | None \<Rightarrow>
          Inr (PDict
            [(''error'', PStr (''No interest rate data available for '' @ s)),
             (''available_regions'',
                PList [PStr ''us'', PStr ''ecb'', PStr ''uk'', PStr ''japan'',
                       PStr ''australia'', PStr ''canada''])]))"
  by (simp add: get_interest_rate_def py_lower_def rates_entry_def rbind_def fmt_def rates_def
      split: option.splits)

text \<open>
  Claim C2, as stated, at the regions "us" and "US": the two records differ, since each
  echoes the region as it was passed.
\<close>

theorem rate_lookup_counterexample:
  "get_interest_rate base_env (PStr ''us'') PNone \<noteq> get_interest_rate base_env (PStr ''US'') PNone"
  by (simp add: get_interest_rate_str lower_examples) (simp add: rates_def)

text \<open>
  Claim C2, amended. The lookup is case-insensitive: "us" and "US" find the same entry of the
  table and give records with the same date, interest rate (a string ending in a percent
  sign), central bank and last update, whose region field echoes the region as passed; so do
  any two spellings of a known region. A region without an entry, such as "Mars", gives a
  record with an error message and the list of the known regions.
\<close>

theorem rate_lookup:
  "get_interest_rate ev (PStr ''us'') d =
     Inr (PDict
       [(''region'', PStr ''us''),
        (''date'', if py_truthy d then d else PStr (today ev)),
        (''interest_rate'', PStr (py_str ev (PNum 5.5) @ ''%'')),
        (''central_bank'', PStr ''Federal Reserve''),
        (''last_updated'', PStr ''2023-12-13'')]) \<and>
   get_interest_rate ev (PStr ''US'') d =
     Inr (PDict
       [(''region'', PStr ''US''),
        (''date'', if py_truthy d then d else PStr (today ev)),
        (''interest_rate'', PStr (py_str ev (PNum 5.5) @ ''%'')),
        (''central_bank'', PStr ''Federal Reserve''),
        (''last_updated'', PStr ''2023-12-13'')]) \<and>
   get_interest_rate ev (PStr ''Mars'') d =
     Inr (PDict
       [(''error'', PStr ''No interest rate data available for Mars''),
        (''available_regions'',
           PList [PStr ''us'', PStr ''ecb'', PStr ''uk'', PStr ''japan'',
                  PStr ''australia'', PStr ''canada''])]) \<and>
   (lower s = lower s' \<and> map_of rates (lower s) \<noteq> None \<longrightarrow>
      (\<exists>rest. get_interest_rate ev (PStr s) d = Inr (PDict ((''region'', PStr s) # rest)) \<and>
              get_interest_rate ev (PStr s') d = Inr (PDict ((''region'', PStr s') # rest))))"
  apply (intro conjI)
     apply (simp add: get_interest_rate_str lower_examples, simp add: rates_def)
    apply (simp add: get_interest_rate_str lower_examples, simp add: rates_def)
   apply (simp add: get_interest_rate_str lower_examples, simp add: rates_def)
  apply (auto simp: get_interest_rate_str)
  done

theorem rate_lookup_witness:
  "lower ''Uk'' = lower ''uK'' \<and> map_of rates (lower ''Uk'') \<noteq> None \<and>
   (\<exists>rest. get_interest_rate base_env (PStr ''Uk'') PNone = Inr (PDict ((''region'', PStr ''Uk'') # rest)) \<and>
          get_interest_rate base_env (PStr ''uK'') PNone = Inr (PDict ((''region'', PStr ''uK'') # rest)))"
proof -
  have h: "lower ''Uk'' = lower ''uK'' \<and> map_of rates (lower ''Uk'') \<noteq> None"
    by (simp add: lower_examples) (simp add: rates_def)
  from rate_lookup[of base_env PNone "''Uk''" "''uK''"] h show ?thesis by blast
qed

subsection \<open>The arguments of a function call\<close>



subsection \<open>A loan without a term\<close>



subsection \<open>The content of the assistant turn\<close>

lemma add_continued_item_acc:
  "add_continued_item item acc = rbind (add_continued_item item []) (\<lambda>t. Inr (acc @ t))"
  by (auto simp: add_continued_item_def rbind_def call_get_def str_add_def split: sum.splits pyval.splits option.splits)

lemma add_continued_items_acc:
  "add_continued_items items acc = rbind (add_continued_items items []) (\<lambda>t. Inr (acc @ t))"
proof (induction items arbitrary: acc)
  case Nil show ?case by (simp add: rbind_def)
next
  case (Cons item items)
  show ?case
    apply (simp)
    apply (subst add_continued_item_acc)
    apply (cases "add_continued_item item []")
     apply (simp_all add: rbind_def)
    subgoal for t
      apply (subst Cons.IH[of t])
      apply (subst Cons.IH[of "acc @ t"])
      apply (simp add: rbind_def split: sum.splits)
      done
    done
qed

lemma add_continued_output_acc:
  "add_continued_output out acc = rbind (add_continued_output out []) (\<lambda>t. Inr (acc @ t))"
  apply (simp add: add_continued_output_def)
  apply (cases "getattr out ''type''"; simp add: rbind_def)
  apply (cases "getattr out ''content''"; simp add: rbind_def)
  subgoal for ty c
    apply (cases c; simp)
    apply (subst add_continued_items_acc)
    apply (simp add: rbind_def)
    done
  done

lemma add_continued_outputs_acc:
  "add_continued_outputs outs acc = rbind (add_continued_outputs outs []) (\<lambda>t. Inr (acc @ t))"
proof (induction outs arbitrary: acc)
  case Nil show ?case by (simp add: rbind_def)
next
  case (Cons out outs)
  show ?case
    apply (simp)
    apply (subst add_continued_output_acc)
    apply (cases "add_continued_output out []")
     apply (simp_all add: rbind_def)
    subgoal for t
      apply (subst Cons.IH[of t])
      apply (subst Cons.IH[of "acc @ t"])
      apply (simp add: rbind_def split: sum.splits)
      done
    done
qed


lemma execute_function_call_step:
  assumes "execute_function_call ev cid fc (final, results) tr = (Inr (final', results'), tr')"
  shows "(tr' = tr \<and> final' = final) \<or>
         (\<exists>rq r t. tr' = tr @ [rq] \<and> conversations_continued ev tr' = Inr r \<and>
            add_continued_outputs (outputs r) [] = Inr t \<and> final' = final @ t)"
proof -
  from assms obtain step where
    step: "rbind (dict_item fc ''function_name'') (\<lambda>function_name.
           rbind (dict_item fc ''arguments'') (\<lambda>args.
           rbind (execute_local ev function_name args) (\<lambda>result.
             if \<not> py_truthy result then Inr None
             else rbind (dict_item fc ''tool_call_id'') (\<lambda>tool_call_id.
                    Inr (Some (function_name, result, tool_call_id)))))) = Inr step"
    by (auto simp: execute_function_call_def split: sum.splits)
  show ?thesis
  proof (cases step)
    case None
    with assms step show ?thesis by (simp add: execute_function_call_def)
  next
    case (Some triple)
    obtain fn result tcid where triple: "triple = (fn, result, tcid)" by (cases triple)
    let ?tr = "tr @ [ContinueConversation cid tcid (json_dumps ev result)]"
    from assms step Some triple obtain r where
      r: "conversations_continued ev ?tr = Inr r" and tr': "tr' = ?tr"
      and fin: "rbind (add_continued_outputs (outputs r) final) (\<lambda>f. Inr (f, results @
          [PDict [(''tool_call_id'', tcid), (''function_name'', fn), (''result'', result)]])) =
          Inr (final', results')"
      by (auto simp: execute_function_call_def Let_def split: sum.splits)
    from fin obtain t where "add_continued_outputs (outputs r) [] = Inr t" "final' = final @ t"
      by (subst (asm) add_continued_outputs_acc) (auto simp: rbind_def split: sum.splits)
    with r tr' show ?thesis by auto
  qed
qed

lemma continued_texts_same: "continued_texts ev tr tr = []"
  by (simp add: continued_texts_def)

lemma continued_texts_step:
  assumes "conversations_continued ev (tr @ [rq]) = Inr r" "add_continued_outputs (outputs r) [] = Inr t"
  shows "continued_texts ev tr (tr @ [rq] @ ext) = t # continued_texts ev (tr @ [rq]) (tr @ [rq] @ ext)"
proof -
  let ?tr' = "tr @ [rq] @ ext"
  have idx: "[Suc (length tr) ..< Suc (length ?tr')] =
      Suc (length tr) # [Suc (length (tr @ [rq])) ..< Suc (length ?tr')]"
    by (rule trans[OF upt_conv_Cons]) simp_all
  have tk: "take (Suc (length tr)) ?tr' = tr @ [rq]" by simp
  show ?thesis
    unfolding continued_texts_def idx
    using assms by (simp del: upt_Suc)
qed

lemma execute_function_calls_texts:
  "execute_function_calls ev cid calls (final, results) tr = (Inr (final', results'), tr') \<Longrightarrow>
     (\<exists>ext. tr' = tr @ ext) \<and> final' = final @ concat (continued_texts ev tr tr')"
proof (induction calls arbitrary: final results tr)
  case Nil then show ?case by (simp add: continued_texts_same)
next
  case (Cons fc calls)
  from Cons.prems obtain f1 r1 tr1 where
    1: "execute_function_call ev cid fc (final, results) tr = (Inr (f1, r1), tr1)" and
    2: "execute_function_calls ev cid calls (f1, r1) tr1 = (Inr (final', results'), tr')"
    by (auto split: prod.splits sum.splits)
  from Cons.IH[OF 2] obtain ext where m: "tr' = tr1 @ ext" and f: "final' = f1 @ concat (continued_texts ev tr1 tr')"
    by blast
  from execute_function_call_step[OF 1] show ?case
  proof
    assume "tr1 = tr \<and> f1 = final"
    with m f show ?thesis by simp
  next
    assume "\<exists>rq r t. tr1 = tr @ [rq] \<and> conversations_continued ev tr1 = Inr r \<and>
            add_continued_outputs (outputs r) [] = Inr t \<and> f1 = final @ t"
    then obtain rq r t where a: "tr1 = tr @ [rq]" "conversations_continued ev tr1 = Inr r"
      "add_continued_outputs (outputs r) [] = Inr t" "f1 = final @ t" by blast
    from continued_texts_step[of ev tr rq r t ext] a m
    have "continued_texts ev tr tr' = t # continued_texts ev tr1 tr'" by simp
    with a m f show ?thesis by simp
  qed
qed


text \<open>
  The loop over a continuation response reads the sub-items of a list content by key only.
  A text sub-item that is an object, which the loop over the initial response reads by
  attribute, raises AttributeError there and ends the turn.
\<close>

lemma continued_item_by_key_only:
  "add_content_items [PObj [(''type'', PStr ''text''), (''text'', PStr ''Hi'')]] [] = Inr ''Hi'' \<and>
   add_continued_items [PObj [(''type'', PStr ''text''), (''text'', PStr ''Hi'')]] [] =
     Inl AttributeError"
  by (simp add: add_content_item_def add_continued_item_def has_get_def call_get_def hasattr_def
      getattr_def attr_lookup_def rbind_def str_add_def)

text \<open>
  Claim C9. When the submit goes through, the content of the assistant turn appended to the
  history is the text extracted from the initial response if that response asked for no
  function call, and otherwise the concatenation, in the order of the requests, of the texts
  extracted from the continuation responses, the text of the initial response being left
  out.
\<close>

theorem assistant_content:
  assumes "api_key \<noteq> []" and "user_prompt \<noteq> []"
    and create: "agents_create ev
        (trace pg @ [CreateAgent ''Function Call Agent'' [''function'', ''function'']]) = Inr agent_id"
    and tr1: "tr1 = trace pg @ [CreateAgent ''Function Call Agent'' [''function'', ''function''],
        StartConversation agent_id user_prompt None]"
    and start: "conversations_start ev tr1 = Inr response"
    and init: "process_outputs ev (outputs response) ([], []) = Inr (current_response, function_calls)"
    and exec: "execute_function_calls ev (conversation_id response) function_calls ([], []) tr1 =
        (Inr (final_response, function_results), tr2)"
  shows "current_response = spec_text (outputs response) \<and>
         final_response = concat (continued_texts ev tr1 tr2) \<and>
         history (submit_function_calls ev api_key user_prompt pg) =
           history pg @
             [user_message user_prompt,
              PDict [(''role'', PStr ''assistant''),
                     (''content'',
                        PStr (if function_calls = [] then spec_text (outputs response)
                              else concat (continued_texts ev tr1 tr2))),
                     (''function_calls'', PList function_calls),
                     (''function_results'', PList function_results)]]"
proof -
  from process_outputs_sound[OF init] have cur: "current_response = spec_text (outputs response)"
    by simp
  from execute_function_calls_texts[OF exec]
  have fin: "final_response = concat (continued_texts ev tr1 tr2)" by simp
  have turn: "function_call_turn ev agent_id user_prompt
      (trace pg @ [CreateAgent ''Function Call Agent'' [''function'', ''function'']]) =
      (Inr (PDict [(''role'', PStr ''assistant''),
                     (''content'', PStr (if function_calls = [] then current_response else final_response)),
                     (''function_calls'', PList function_calls),
                     (''function_results'', PList function_results)]), tr2)"
    using start init exec by (simp add: function_call_turn_def tr1 Let_def)
  show ?thesis
    using assms(1,2) create turn cur fin
    by (simp add: submit_function_calls_def create_function_call_agent_def Let_def)
qed


lemma demo_payload_run:
  "process_outputs rate_env demo_payload ([], []) =
     Inr (''Hello. The rate is 5.5%.'',
          [PDict [(''tool_call_id'', PStr ''call-1''),
                  (''function_name'', PStr ''get_interest_rate''),
                  (''arguments'', PDict [(''region'', PStr ''US'')])]])"
  by (simp add: demo_payload_def demo_tool_call_def process_output_def has_type_def hasattr_def
      getattr_def attr_lookup_def rbind_def py_iter_def add_tool_call_def attr_or_def
      parse_arguments_def add_message_output_def add_content_item_def has_get_def call_get_def
      str_add_def rate_env_def base_env_def demo_json_loads_def)

lemma rate_env_us:
  "get_interest_rate rate_env (PStr ''US'') PNone =
     Inr (PDict [(''region'', PStr ''US''), (''date'', PStr ''2024-01-01''),
                 (''interest_rate'', PStr ''5.5%''), (''central_bank'', PStr ''Federal Reserve''),
                 (''last_updated'', PStr ''2023-12-13'')])"
  by (simp add: get_interest_rate_str lower_examples) (simp add: rates_def rate_env_def base_env_def)

lemma demo_call_run:
  "execute_function_calls rate_env ''conv-1''
     [PDict [(''tool_call_id'', PStr ''call-1''),
             (''function_name'', PStr ''get_interest_rate''),
             (''arguments'', PDict [(''region'', PStr ''US'')])]] ([], []) tr =
   (Inr (''The Federal Reserve rate is 5.5%.'',
         [PDict [(''tool_call_id'', PStr ''call-1''),
                 (''function_name'', PStr ''get_interest_rate''),
                 (''result'',
                    PDict [(''region'', PStr ''US''), (''date'', PStr ''2024-01-01''),
                           (''interest_rate'', PStr ''5.5%''),
                           (''central_bank'', PStr ''Federal Reserve''),
                           (''last_updated'', PStr ''2023-12-13'')])]]),
    tr @ [ContinueConversation ''conv-1'' (PStr ''call-1'') ''{}''])"
  by (simp add: execute_function_call_def dict_item_def rbind_def execute_local_def call_get_def
      rate_env_us Let_def)
    (simp add: rate_env_def base_env_def add_continued_output_def getattr_def attr_lookup_def
      rbind_def add_continued_item_def call_get_def str_add_def)

theorem assistant_content_witness:
  "history (submit_function_calls rate_env ''key'' ''What is the rate in the US?'' empty_page) =
     [user_message ''What is the rate in the US?'',
      PDict [(''role'', PStr ''assistant''),
             (''content'', PStr ''The Federal Reserve rate is 5.5%.''),
             (''function_calls'',
                PList [PDict [(''tool_call_id'', PStr ''call-1''),
                              (''function_name'', PStr ''get_interest_rate''),
                              (''arguments'', PDict [(''region'', PStr ''US'')])]]),
             (''function_results'',
                PList [PDict [(''tool_call_id'', PStr ''call-1''),
                              (''function_name'', PStr ''get_interest_rate''),
                              (''result'',
                                 PDict [(''region'', PStr ''US''), (''date'', PStr ''2024-01-01''),
                                        (''interest_rate'', PStr ''5.5%''),
                                        (''central_bank'', PStr ''Federal Reserve''),
                                        (''last_updated'', PStr ''2023-12-13'')])]])]] \<and>
   spec_text demo_payload = ''Hello. The rate is 5.5%.''"
proof -
  let ?p = "''What is the rate in the US?''"
  let ?tr1 = "trace empty_page @ [CreateAgent ''Function Call Agent'' [''function'', ''function''],
        StartConversation ''agent-1'' ?p None]"
  let ?resp = "\<lparr>outputs = demo_payload, conversation_id = ''conv-1''\<rparr>"
  have k: "''key'' \<noteq> []" and p: "?p \<noteq> []" by simp_all
  have create: "agents_create rate_env
      (trace empty_page @ [CreateAgent ''Function Call Agent'' [''function'', ''function'']]) =
      Inr ''agent-1''"
    by (simp add: rate_env_def base_env_def)
  have start: "conversations_start rate_env ?tr1 = Inr ?resp" by (simp add: rate_env_def)
  have init: "process_outputs rate_env (outputs ?resp) ([], []) =
      Inr (''Hello. The rate is 5.5%.'',
          [PDict [(''tool_call_id'', PStr ''call-1''),
                  (''function_name'', PStr ''get_interest_rate''),
                  (''arguments'', PDict [(''region'', PStr ''US'')])]])"
    using demo_payload_run by simp
  have exec: "execute_function_calls rate_env (conversation_id ?resp)
     [PDict [(''tool_call_id'', PStr ''call-1''),
             (''function_name'', PStr ''get_interest_rate''),
             (''arguments'', PDict [(''region'', PStr ''US'')])]] ([], []) ?tr1 =
   (Inr (''The Federal Reserve rate is 5.5%.'',
         [PDict [(''tool_call_id'', PStr ''call-1''),
                 (''function_name'', PStr ''get_interest_rate''),
                 (''result'',
                    PDict [(''region'', PStr ''US''), (''date'', PStr ''2024-01-01''),
                           (''interest_rate'', PStr ''5.5%''),
                           (''central_bank'', PStr ''Federal Reserve''),
                           (''last_updated'', PStr ''2023-12-13'')])]]),
    ?tr1 @ [ContinueConversation ''conv-1'' (PStr ''call-1'') ''{}''])"
    using demo_call_run[of ?tr1] by simp
  from assistant_content[OF k p create refl start init exec]
  show ?thesis by (simp add: empty_page_def)
qed

subsection \<open>Failures of the service\<close>

lemma function_call_turn_start_fails:
  "conversations_start ev (tr @ [StartConversation agent_id user_prompt None]) = Inl e \<Longrightarrow>
     function_call_turn ev agent_id user_prompt tr =
       (Inl e, tr @ [StartConversation agent_id user_prompt None])"
  by (simp add: function_call_turn_def Let_def)

lemma function_call_turn_continue_fails:
  "conversations_start ev (tr @ [StartConversation agent_id user_prompt None]) = Inr response \<Longrightarrow>
   process_outputs ev (outputs response) ([], []) = Inr (cur, calls) \<Longrightarrow>
   execute_function_calls ev (conversation_id response) calls ([], [])
     (tr @ [StartConversation agent_id user_prompt None]) = (Inl e, tr2) \<Longrightarrow>
     function_call_turn ev agent_id user_prompt tr = (Inl e, tr2)"
  by (simp add: function_call_turn_def Let_def)

lemma execute_function_call_continue_fails:
  "dict_item fc ''function_name'' = Inr fn \<Longrightarrow> dict_item fc ''arguments'' = Inr args \<Longrightarrow>
   dict_item fc ''tool_call_id'' = Inr tcid \<Longrightarrow>
   execute_local ev fn args = Inr result \<Longrightarrow> py_truthy result \<Longrightarrow>
   conversations_continued ev (tr @ [ContinueConversation cid tcid (json_dumps ev result)]) = Inl e \<Longrightarrow>
   execute_function_calls ev cid (fc # rest) acc tr =
     (Inl e, tr @ [ContinueConversation cid tcid (json_dumps ev result)])"
  by (cases acc) (simp add: execute_function_call_def rbind_def Let_def)

lemma submit_function_calls_error:
  assumes "api_key \<noteq> []" "user_prompt \<noteq> []"
    and "agents_create ev (trace pg @ [CreateAgent ''Function Call Agent'' [''function'', ''function'']]) = Inr agent_id"
    and "function_call_turn ev agent_id user_prompt
       (trace pg @ [CreateAgent ''Function Call Agent'' [''function'', ''function'']]) = (Inl e, tr')"
  shows "history (submit_function_calls ev api_key user_prompt pg) =
      history pg @ [user_message user_prompt, function_calls_error_message ev e]"
  using assms by (simp add: submit_function_calls_def create_function_call_agent_def Let_def)

lemma submit_function_calls_locked:
  assumes "api_key \<noteq> []" "user_prompt \<noteq> []"
    and "agents_create ev (trace pg @ [CreateAgent ''Function Call Agent'' [''function'', ''function'']]) = Inl e"
  shows "submit_function_calls ev api_key user_prompt pg =
      pg\<lparr>trace := trace pg @ [CreateAgent ''Function Call Agent'' [''function'', ''function'']],
         alerts := alerts pg @ [StError (''Failed to create function call agent: '' @ str_exc ev e)]\<rparr>"
  using assms by (simp add: submit_function_calls_def create_function_call_agent_def Let_def)

lemma submit_function_calls_prefix:
  "\<exists>new. history (submit_function_calls ev api_key user_prompt pg) = history pg @ new"
  by (auto simp: submit_function_calls_def create_function_call_agent_def Let_def
      split: sum.splits prod.splits option.splits)

lemma web_search_turn_start_fails:
  "conversations_start ev (tr @ [StartConversation agent_id user_prompt None]) = Inl e \<Longrightarrow>
     web_search_turn ev agent_id user_prompt tr =
       (Inl e, tr @ [StartConversation agent_id user_prompt None])"
  by (simp add: web_search_turn_def Let_def)

lemma submit_web_search_error:
  assumes "api_key \<noteq> []" "user_prompt \<noteq> []"
    and "agents_create ev (trace pg @ [CreateAgent ''Web Search Agent''
            [if premium then ''web_search_premium'' else ''web_search'']]) = Inr agent_id"
    and "web_search_turn ev agent_id user_prompt
       (trace pg @ [CreateAgent ''Web Search Agent''
            [if premium then ''web_search_premium'' else ''web_search'']]) = (Inl e, tr')"
  shows "history (submit_web_search ev api_key premium user_prompt pg) =
      history pg @ [user_message user_prompt, web_search_error_message ev e]"
  using assms by (simp add: submit_web_search_def create_web_search_agent_def Let_def)

lemma submit_web_search_locked:
  assumes "api_key \<noteq> []" "user_prompt \<noteq> []"
    and "agents_create ev (trace pg @ [CreateAgent ''Web Search Agent''
            [if premium then ''web_search_premium'' else ''web_search'']]) = Inl e"
  shows "submit_web_search ev api_key premium user_prompt pg =
      pg\<lparr>trace := trace pg @ [CreateAgent ''Web Search Agent''
            [if premium then ''web_search_premium'' else ''web_search'']],
         alerts := alerts pg @ [StError (''Failed to create web search agent: '' @ str_exc ev e)]\<rparr>"
  using assms by (simp add: submit_web_search_def create_web_search_agent_def Let_def)

lemma submit_web_search_prefix:
  "\<exists>new. history (submit_web_search ev api_key premium user_prompt pg) = history pg @ new"
  by (auto simp: submit_web_search_def create_web_search_agent_def Let_def
      split: sum.splits prod.splits option.splits)


text \<open>
  Claim C6, amended. On the function-calls page and on the web-search page a failure of the
  conversation request, and on the function-calls page any exception while the calls are
  executed and the conversation continued, is recorded as an assistant turn after the user
  turn, whose content is "Error: " followed by the message of the exception as it is. A
  failure while the agent is created is shown on the page and leaves the history as it was.
  In every case the turns appended before remain: the new history extends the old one.
\<close>

theorem conversation_failure_recorded:
  assumes "api_key \<noteq> []" and "user_prompt \<noteq> []"
    and fc: "fc = trace pg @ [CreateAgent ''Function Call Agent'' [''function'', ''function'']]"
    and ws: "ws = trace pg @ [CreateAgent ''Web Search Agent''
                    [if premium then ''web_search_premium'' else ''web_search'']]"
  shows
   "str_exc ev (ServiceError m) = m \<and>
    (agents_create ev fc = Inr agent_id \<and>
     conversations_start ev (fc @ [StartConversation agent_id user_prompt None]) = Inl e \<longrightarrow>
       history (submit_function_calls ev api_key user_prompt pg) =
         history pg @
           [user_message user_prompt,
            PDict [(''role'', PStr ''assistant''), (''content'', PStr (''Error: '' @ str_exc ev e)),
                   (''function_calls'', PList []), (''function_results'', PList [])]]) \<and>
    (agents_create ev fc = Inr agent_id \<and>
     conversations_start ev (fc @ [StartConversation agent_id user_prompt None]) = Inr response \<and>
     process_outputs ev (outputs response) ([], []) = Inr (current_response, function_calls) \<and>
     execute_function_calls ev (conversation_id response) function_calls ([], [])
       (fc @ [StartConversation agent_id user_prompt None]) = (Inl e, tr2) \<longrightarrow>
       history (submit_function_calls ev api_key user_prompt pg) =
         history pg @
           [user_message user_prompt,
            PDict [(''role'', PStr ''assistant''), (''content'', PStr (''Error: '' @ str_exc ev e)),
                   (''function_calls'', PList []), (''function_results'', PList [])]]) \<and>
    (agents_create ev ws = Inr agent_id \<and>
     conversations_start ev (ws @ [StartConversation agent_id user_prompt None]) = Inl e \<longrightarrow>
       history (submit_web_search ev api_key premium user_prompt pg) =
         history pg @
           [user_message user_prompt,
            PDict [(''role'', PStr ''assistant''), (''content'', PStr (''Error: '' @ str_exc ev e)),
                   (''sources'', PList [])]]) \<and>
    (agents_create ev fc = Inl e \<longrightarrow>
       history (submit_function_calls ev api_key user_prompt pg) = history pg \<and>
       alerts (submit_function_calls ev api_key user_prompt pg) =
         alerts pg @ [StError (''Failed to create function call agent: '' @ str_exc ev e)]) \<and>
    (agents_create ev ws = Inl e \<longrightarrow>
       history (submit_web_search ev api_key premium user_prompt pg) = history pg \<and>
       alerts (submit_web_search ev api_key premium user_prompt pg) =
         alerts pg @ [StError (''Failed to create web search agent: '' @ str_exc ev e)]) \<and>
    (\<exists>new. history (submit_function_calls ev api_key user_prompt pg) = history pg @ new) \<and>
    (\<exists>new. history (submit_web_search ev api_key premium user_prompt pg) = history pg @ new)"
proof (intro conjI impI)
  show "str_exc ev (ServiceError m) = m" by (simp add: str_exc_def)
next
  assume a: "agents_create ev fc = Inr agent_id \<and>
     conversations_start ev (fc @ [StartConversation agent_id user_prompt None]) = Inl e"
  then have "function_call_turn ev agent_id user_prompt fc =
      (Inl e, fc @ [StartConversation agent_id user_prompt None])"
    by (simp add: function_call_turn_start_fails)
  with a submit_function_calls_error[OF assms(1,2), of ev pg agent_id e]
  show "history (submit_function_calls ev api_key user_prompt pg) =
         history pg @
           [user_message user_prompt,
            PDict [(''role'', PStr ''assistant''), (''content'', PStr (''Error: '' @ str_exc ev e)),
                   (''function_calls'', PList []), (''function_results'', PList [])]]"
    by (simp add: fc function_calls_error_message_def)
next
  assume a: "agents_create ev fc = Inr agent_id \<and>
     conversations_start ev (fc @ [StartConversation agent_id user_prompt None]) = Inr response \<and>
     process_outputs ev (outputs response) ([], []) = Inr (current_response, function_calls) \<and>
     execute_function_calls ev (conversation_id response) function_calls ([], [])
       (fc @ [StartConversation agent_id user_prompt None]) = (Inl e, tr2)"
  then have "function_call_turn ev agent_id user_prompt fc = (Inl e, tr2)"
    by (simp add: function_call_turn_continue_fails)
  with a submit_function_calls_error[OF assms(1,2), of ev pg agent_id e]
  show "history (submit_function_calls ev api_key user_prompt pg) =
         history pg @
           [user_message user_prompt,
            PDict [(''role'', PStr ''assistant''), (''content'', PStr (''Error: '' @ str_exc ev e)),
                   (''function_calls'', PList []), (''function_results'', PList [])]]"
    by (simp add: fc function_calls_error_message_def)
next
  assume a: "agents_create ev ws = Inr agent_id \<and>
     conversations_start ev (ws @ [StartConversation agent_id user_prompt None]) = Inl e"
  then have "web_search_turn ev agent_id user_prompt ws =
      (Inl e, ws @ [StartConversation agent_id user_prompt None])"
    by (simp add: web_search_turn_start_fails)
  with a submit_web_search_error[OF assms(1,2), of ev pg premium agent_id e]
  show "history (submit_web_search ev api_key premium user_prompt pg) =
         history pg @
           [user_message user_prompt,
            PDict [(''role'', PStr ''assistant''), (''content'', PStr (''Error: '' @ str_exc ev e)),
                   (''sources'', PList [])]]"
    by (simp add: ws web_search_error_message_def)
next
  assume "agents_create ev fc = Inl e"
  with submit_function_calls_locked[OF assms(1,2), of ev pg e]
  show "history (submit_function_calls ev api_key user_prompt pg) = history pg"
    and "alerts (submit_function_calls ev api_key user_prompt pg) =
         alerts pg @ [StError (''Failed to create function call agent: '' @ str_exc ev e)]"
    by (simp_all add: fc)
next
  assume "agents_create ev ws = Inl e"
  with submit_web_search_locked[OF assms(1,2), of ev pg premium e]
  show "history (submit_web_search ev api_key premium user_prompt pg) = history pg"
    and "alerts (submit_web_search ev api_key premium user_prompt pg) =
         alerts pg @ [StError (''Failed to create web search agent: '' @ str_exc ev e)]"
    by (simp_all add: ws)
next
  show "\<exists>new. history (submit_function_calls ev api_key user_prompt pg) = history pg @ new"
    by (rule submit_function_calls_prefix)
next
  show "\<exists>new. history (submit_web_search ev api_key premium user_prompt pg) = history pg @ new"
    by (rule submit_web_search_prefix)
qed

text \<open>
  Claim C6, as stated, on a service that refuses to create the agent: the failure is shown on
  the page and no turn is appended.
\<close>

theorem conversation_failure_counterexample:
  "agents_create locked_env
     [CreateAgent ''Function Call Agent'' [''function'', ''function'']] =
       Inl (ServiceError ''401 Unauthorized'') \<and>
   history (submit_function_calls locked_env ''key'' ''What is the rate in the US?'' empty_page) = [] \<and>
   alerts (submit_function_calls locked_env ''key'' ''What is the rate in the US?'' empty_page) =
     [StError ''Failed to create function call agent: 401 Unauthorized'']"
  by (simp add: submit_function_calls_def create_function_call_agent_def locked_env_def
      base_env_def empty_page_def str_exc_def Let_def)

theorem conversation_failure_recorded_witness:
  "history (submit_function_calls base_env ''key'' ''What is the rate in the US?'' empty_page) =
     [user_message ''What is the rate in the US?'',
      PDict [(''role'', PStr ''assistant''), (''content'', PStr ''Error: 401 Unauthorized''),
             (''function_calls'', PList []), (''function_results'', PList [])]] \<and>
   history (submit_web_search base_env ''key'' False ''Who won?'' empty_page) =
     [user_message ''Who won?'',
      PDict [(''role'', PStr ''assistant''), (''content'', PStr ''Error: 401 Unauthorized''),
             (''sources'', PList [])]] \<and>
   history (submit_web_search locked_env ''key'' False ''Who won?'' empty_page) = []"
proof -
  have k: "''key'' \<noteq> []" and p: "''What is the rate in the US?'' \<noteq> []" and q: "''Who won?'' \<noteq> []"
    by simp_all
  have c: "agents_create base_env tr = Inr ''agent-1''" for tr by (simp add: base_env_def)
  have s: "conversations_start base_env tr = Inl (ServiceError ''401 Unauthorized'')" for tr
    by (simp add: base_env_def)
  have l: "agents_create locked_env tr = Inl (ServiceError ''401 Unauthorized'')" for tr
    by (simp add: locked_env_def)
  have x: "str_exc ev (ServiceError ''401 Unauthorized'') = ''401 Unauthorized''" for ev
    by (simp add: str_exc_def)
  from conversation_failure_recorded[OF k p refl refl, where ev = base_env
      and agent_id = "''agent-1''" and pg = empty_page
      and e = "ServiceError ''401 Unauthorized''"] c s x
  have 1: "history (submit_function_calls base_env ''key'' ''What is the rate in the US?'' empty_page) =
     [user_message ''What is the rate in the US?'',
      PDict [(''role'', PStr ''assistant''), (''content'', PStr ''Error: 401 Unauthorized''),
             (''function_calls'', PList []), (''function_results'', PList [])]]"
    by (simp add: empty_page_def)
  from conversation_failure_recorded[OF k q refl refl, where ev = base_env
      and agent_id = "''agent-1''" and pg = empty_page and premium = False
      and e = "ServiceError ''401 Unauthorized''"] c s x
  have 2: "history (submit_web_search base_env ''key'' False ''Who won?'' empty_page) =
     [user_message ''Who won?'',
      PDict [(''role'', PStr ''assistant''), (''content'', PStr ''Error: 401 Unauthorized''),
             (''sources'', PList [])]]"
    by (simp add: empty_page_def)
  from conversation_failure_recorded[OF k q refl refl, where ev = locked_env
      and pg = empty_page and premium = False
      and e = "ServiceError ''401 Unauthorized''"] l
  have 3: "history (submit_web_search locked_env ''key'' False ''Who won?'' empty_page) = []"
    by (simp add: empty_page_def)
  from 1 2 3 show ?thesis by simp
qed

subsection \<open>Handoffs and tool executions\<close>

lemma has_type_exclusive:
  "has_type v a = Inr True \<Longrightarrow> a \<noteq> b \<Longrightarrow> has_type v b = Inr False"
  by (auto simp: has_type_def rbind_def split: sum.splits if_splits)

lemma handoff_agent_name_found:
  "(n, aid) \<in> set agent_ids \<Longrightarrow> distinct (map snd agent_ids) \<Longrightarrow>
     handoff_agent_name agent_ids (PStr aid) = n"
proof (induction agent_ids)
  case Nil
  then show ?case by simp
next
  case (Cons entry agent_ids)
  then show ?case
    by (cases entry) (force simp: handoff_agent_name_def)
qed

lemma handoff_agent_name_unknown:
  "v \<notin> (\<lambda>entry. PStr (snd entry)) ` set agent_ids \<Longrightarrow>
     handoff_agent_name agent_ids v = ''Unknown Agent''"
proof -
  assume "v \<notin> (\<lambda>entry. PStr (snd entry)) ` set agent_ids"
  then have "find (\<lambda>entry. PStr (snd entry) = v) agent_ids = None"
    by (force simp: find_None_iff)
  then show ?thesis by (simp add: handoff_agent_name_def)
qed

lemma orchestration_output_handoffs:
  assumes "orchestration_output agent_ids out (t0, h0, x0) = Inr (t1, h1, x1)"
  shows "map Inr h1 = map Inr h0 @
           map (handoff_record agent_ids)
             (filter (\<lambda>out. has_type out ''handoff.execution'' = Inr True) [out])"
proof (cases "has_type out ''message.output'' = Inr True")
  case True
  then have "has_type out ''handoff.execution'' = Inr False"
    by (rule has_type_exclusive) simp
  with True assms show ?thesis
    by (auto simp: orchestration_output_def rbind_def split: sum.splits)
next
  case False
  with assms show ?thesis
    by (auto simp: orchestration_output_def rbind_def split: sum.splits if_splits)
qed

lemma orchestration_outputs_handoffs:
  "orchestration_outputs agent_ids outs (t0, h0, x0) = Inr (t1, h1, x1) \<Longrightarrow>
     map Inr h1 = map Inr h0 @
       map (handoff_record agent_ids)
         (filter (\<lambda>out. has_type out ''handoff.execution'' = Inr True) outs)"
proof (induction outs arbitrary: t0 h0 x0)
  case Nil
  then show ?case by simp
next
  case (Cons out outs)
  from Cons.prems obtain t' h' x' where
    1: "orchestration_output agent_ids out (t0, h0, x0) = Inr (t', h', x')" and
    2: "orchestration_outputs agent_ids outs (t', h', x') = Inr (t1, h1, x1)"
    by (auto simp: rbind_def split: sum.splits)
  from orchestration_output_handoffs[OF 1] Cons.IH[OF 2] show ?case by simp
qed

text \<open>
  Claim C7. The name of a handoff target is found by reverse lookup of its id in the registry
  of agent ids by name: with the registry {"calculator": "id-123"} the id "id-123" gives
  "calculator" and the id "id-999" gives "Unknown Agent"; in general an id of the registry
  gives its name and any other value gives "Unknown Agent". Every handoff record carries the
  name so resolved, and the handoff records of a turn are those of the handoff items of the
  payload, in payload order.
\<close>

theorem handoff_resolution:
  "handoff_agent_name [(''calculator'', ''id-123'')] (PStr ''id-123'') = ''calculator'' \<and>
   handoff_agent_name [(''calculator'', ''id-123'')] (PStr ''id-999'') = ''Unknown Agent'' \<and>
   ((n, aid) \<in> set agent_ids \<and> distinct (map snd agent_ids) \<longrightarrow>
      handoff_agent_name agent_ids (PStr aid) = n) \<and>
   (v \<notin> (\<lambda>entry. PStr (snd entry)) ` set agent_ids \<longrightarrow>
      handoff_agent_name agent_ids v = ''Unknown Agent'') \<and>
   (handoff_record agent_ids out = Inr h \<longrightarrow>
      (\<exists>handoff_agent_id handoff_inputs.
         attr_or out ''agent_id'' (PStr []) = Inr handoff_agent_id \<and>
         h = PDict [(''agent_name'', PStr (handoff_agent_name agent_ids handoff_agent_id)),
                    (''agent_id'', handoff_agent_id),
                    (''inputs'', handoff_inputs)])) \<and>
   (orchestration_outputs agent_ids outs ([], [], []) = Inr (primary_response, handoffs, tools) \<longrightarrow>
      map Inr handoffs =
        map (handoff_record agent_ids)
          (filter (\<lambda>out. has_type out ''handoff.execution'' = Inr True) outs))"
proof (intro conjI impI)
  show "handoff_agent_name [(''calculator'', ''id-123'')] (PStr ''id-123'') = ''calculator''"
    by (simp add: handoff_agent_name_def)
  show "handoff_agent_name [(''calculator'', ''id-123'')] (PStr ''id-999'') = ''Unknown Agent''"
    by (simp add: handoff_agent_name_def)
next
  assume "(n, aid) \<in> set agent_ids \<and> distinct (map snd agent_ids)"
  then show "handoff_agent_name agent_ids (PStr aid) = n"
    by (simp add: handoff_agent_name_found)
next
  assume "v \<notin> (\<lambda>entry. PStr (snd entry)) ` set agent_ids"
  then show "handoff_agent_name agent_ids v = ''Unknown Agent''"
    by (rule handoff_agent_name_unknown)
next
  assume "handoff_record agent_ids out = Inr h"
  then show "\<exists>handoff_agent_id handoff_inputs.
         attr_or out ''agent_id'' (PStr []) = Inr handoff_agent_id \<and>
         h = PDict [(''agent_name'', PStr (handoff_agent_name agent_ids handoff_agent_id)),
                    (''agent_id'', handoff_agent_id),
                    (''inputs'', handoff_inputs)]"
    by (auto simp: handoff_record_def rbind_def split: sum.splits)
next
  assume "orchestration_outputs agent_ids outs ([], [], []) = Inr (primary_response, handoffs, tools)"
  from orchestration_outputs_handoffs[OF this]
  show "map Inr handoffs =
        map (handoff_record agent_ids)
          (filter (\<lambda>out. has_type out ''handoff.execution'' = Inr True) outs)"
    by simp
qed

lemma handoff_payload_run:
  "orchestration_outputs demo_agent_ids handoff_payload ([], [], []) =
     Inr (''Done.'',
          [PDict [(''agent_name'', PStr ''calculator''), (''agent_id'', PStr ''id-123''),
                  (''inputs'', PStr ''compute'')],
           PDict [(''agent_name'', PStr ''Unknown Agent''), (''agent_id'', PStr ''id-999''),
                  (''inputs'', PStr ''plot'')]],
          [])"
  by (simp add: handoff_payload_def demo_agent_ids_def orchestration_output_def has_type_def
      hasattr_def getattr_def attr_lookup_def rbind_def handoff_record_def attr_or_def
      handoff_agent_name_def add_message_output_def)

text \<open>
  Claim C5 at a payload of two tool executions, the second with an info object that raises
  when its \<^verbatim>\<open>__dict__\<close> is read. The first alone is extracted; with the second
  the exception leaves the walk at the \<^verbatim>\<open>hasattr\<close> test, outside the
  \<^verbatim>\<open>try\<close> meant to catch it, and the turn recorded is an error turn without
  any tool execution.
\<close>

theorem tool_info_failure_aborts_turn:
  "orchestration_outputs demo_agent_ids [good_tool_execution] ([], [], []) =
     Inr ([], [],
          [PDict [(''tool_name'', PStr ''code_interpreter''),
                  (''info'', PDict [(''code'', PStr ''print(1)''), (''code_output'', PStr ''1'')])]]) \<and>
   orchestration_outputs demo_agent_ids [good_tool_execution, bad_tool_execution] ([], [], []) =
     Inl (RuntimeError ''info unavailable'') \<and>
   history (orchestration_exchange tool_env demo_agent_ids ''id-1'' ''What are the rates?''
       ''server'' empty_page) =
     [user_message ''What are the rates?'',
      PDict [(''role'', PStr ''assistant''), (''content'', PStr ''Error: info unavailable''),
             (''handoffs'', PList []), (''tool_executions'', PList [])]]"
  by (simp add: good_tool_execution_def bad_tool_execution_def orchestration_output_def
      has_type_def hasattr_def getattr_def attr_lookup_def rbind_def tool_execution_record_def
      tool_info_of_def attr_or_def orchestration_exchange_def orchestration_turn_def tool_env_def
      empty_page_def orchestration_error_message_def str_exc_def Let_def)


theorem handoff_resolution_witness:
  "(''calculator'', ''id-123'') \<in> set demo_agent_ids \<and> distinct (map snd demo_agent_ids) \<and>
   handoff_agent_name demo_agent_ids (PStr ''id-123'') = ''calculator'' \<and>
   PStr ''id-999'' \<notin> (\<lambda>entry. PStr (snd entry)) ` set demo_agent_ids \<and>
   handoff_agent_name demo_agent_ids (PStr ''id-999'') = ''Unknown Agent'' \<and>
   orchestration_outputs demo_agent_ids handoff_payload ([], [], []) =
     Inr (''Done.'',
          [PDict [(''agent_name'', PStr ''calculator''), (''agent_id'', PStr ''id-123''),
                  (''inputs'', PStr ''compute'')],
           PDict [(''agent_name'', PStr ''Unknown Agent''), (''agent_id'', PStr ''id-999''),
                  (''inputs'', PStr ''plot'')]],
          []) \<and>
   map (handoff_record demo_agent_ids)
     (filter (\<lambda>out. has_type out ''handoff.execution'' = Inr True) handoff_payload) =
     [Inr (PDict [(''agent_name'', PStr ''calculator''), (''agent_id'', PStr ''id-123''),
                  (''inputs'', PStr ''compute'')]),
      Inr (PDict [(''agent_name'', PStr ''Unknown Agent''), (''agent_id'', PStr ''id-999''),
                  (''inputs'', PStr ''plot'')])]"
proof -
  have 1: "(''calculator'', ''id-123'') \<in> set demo_agent_ids \<and> distinct (map snd demo_agent_ids)"
    by (simp add: demo_agent_ids_def)
  have 2: "PStr ''id-999'' \<notin> (\<lambda>entry. PStr (snd entry)) ` set demo_agent_ids"
    by (simp add: demo_agent_ids_def)
  note inst = handoff_resolution[where agent_ids = demo_agent_ids and n = "''calculator''"
      and aid = "''id-123''" and v = "PStr ''id-999''" and outs = handoff_payload
      and primary_response = "''Done.''" and tools = "[]"
      and handoffs = "[PDict [(''agent_name'', PStr ''calculator''), (''agent_id'', PStr ''id-123''),
                  (''inputs'', PStr ''compute'')],
           PDict [(''agent_name'', PStr ''Unknown Agent''), (''agent_id'', PStr ''id-999''),
                  (''inputs'', PStr ''plot'')]]"]
  from inst 1 have 3: "handoff_agent_name demo_agent_ids (PStr ''id-123'') = ''calculator''"
    by blast
  from inst 2 have 4: "handoff_agent_name demo_agent_ids (PStr ''id-999'') = ''Unknown Agent''"
    by blast
  from inst handoff_payload_run have 5:
    "map Inr [PDict [(''agent_name'', PStr ''calculator''), (''agent_id'', PStr ''id-123''),
                  (''inputs'', PStr ''compute'')],
           PDict [(''agent_name'', PStr ''Unknown Agent''), (''agent_id'', PStr ''id-999''),
                  (''inputs'', PStr ''plot'')]] =
     map (handoff_record demo_agent_ids)
       (filter (\<lambda>out. has_type out ''handoff.execution'' = Inr True) handoff_payload)"
    by blast
  from 1 2 3 4 5 handoff_payload_run show ?thesis by simp
qed

subsection \<open>The two images\<close>









end
